theory Spec2Isabelle
  imports Main "HOL-Library.Monad_Syntax"
begin

section \<open>The Kubernetes API objects the compiler reads and builds\<close>

text \<open>
  The structs of \<open>k8s.io/api/core/v1\<close> that \<open>pod_template.go\<close> constructs or passes
  through, as records. A Go pointer field that may be \<open>nil\<close> is an \<open>option\<close>; a Go slice
  is a list (a \<open>nil\<close> slice and an empty one are both \<open>[]\<close>); a Go map is a partial
  function. Every field is prefixed by its struct, because Go reuses field names
  (\<open>Name\<close>, \<open>Env\<close>, ...) across structs.
\<close>

type_synonym Quantity = string

record ObjectFieldSelector =
  ofs_FieldPath :: string

record EnvVarSource =
  evs_FieldRef :: "ObjectFieldSelector option"
  evs_ResourceFieldRef :: "string option"
  evs_ConfigMapKeyRef :: "(string \<times> string) option"
  evs_SecretKeyRef :: "(string \<times> string) option"

record EnvVar =
  ev_Name :: string
  ev_Value :: string
  ev_ValueFrom :: "EnvVarSource option"

text \<open>\<open>LocalObjectReference\<close> holds a name only, so a reference is its name.\<close>

record EnvFromSource =
  efs_Prefix :: string
  efs_ConfigMapRef :: "string option"
  efs_SecretRef :: "string option"

record VolumeMount =
  vm_Name :: string
  vm_ReadOnly :: bool
  vm_MountPath :: string
  vm_SubPath :: string

record EmptyDirVolumeSource =
  ed_Medium :: string
  ed_SizeLimit :: "Quantity option"

record HostPathVolumeSource =
  hp_Path :: string
  hp_Type :: "string option"

record PersistentVolumeClaimVolumeSource =
  pvcs_ClaimName :: string
  pvcs_ReadOnly :: bool

record VolumeSource =
  vs_HostPath :: "HostPathVolumeSource option"
  vs_EmptyDir :: "EmptyDirVolumeSource option"
  vs_PersistentVolumeClaim :: "PersistentVolumeClaimVolumeSource option"

record Volume =
  v_Name :: string
  v_VolumeSource :: VolumeSource

record SecurityContext =
  sc_RunAsUser :: "int option"
  sc_ProcMount :: "string option"

record PodSecurityContext =
  psc_FSGroup :: "int option"

record HTTPHeader =
  hh_Name :: string
  hh_Value :: string

datatype IntOrString = IntVal int | StrVal string

record HTTPGetAction =
  hg_Path :: string
  hg_Port :: IntOrString
  hg_Host :: string
  hg_Scheme :: string
  hg_HTTPHeaders :: "HTTPHeader list"

record ExecAction =
  ea_Command :: "string list"

record Handler =
  h_Exec :: "ExecAction option"
  h_HTTPGet :: "HTTPGetAction option"
  h_TCPSocket :: "IntOrString option"

record Probe =
  p_Handler :: Handler
  p_InitialDelaySeconds :: int
  p_TimeoutSeconds :: int
  p_PeriodSeconds :: int
  p_SuccessThreshold :: int
  p_FailureThreshold :: int

record Lifecycle =
  lc_PostStart :: "Handler option"
  lc_PreStop :: "Handler option"

record ContainerPort =
  cp_Name :: string
  cp_ContainerPort :: int

record ResourceRequirements =
  rr_Limits :: "string \<rightharpoonup> Quantity"
  rr_Requests :: "string \<rightharpoonup> Quantity"

record Container =
  c_Name :: string
  c_Image :: string
  c_Command :: "string list"
  c_Args :: "string list"
  c_Ports :: "ContainerPort list"
  c_EnvFrom :: "EnvFromSource list"
  c_Env :: "EnvVar list"
  c_Resources :: ResourceRequirements
  c_VolumeMounts :: "VolumeMount list"
  c_LivenessProbe :: "Probe option"
  c_ReadinessProbe :: "Probe option"
  c_Lifecycle :: "Lifecycle option"
  c_ImagePullPolicy :: string
  c_SecurityContext :: "SecurityContext option"

record Toleration =
  t_Key :: string
  t_Operator :: string
  t_Value :: string
  t_Effect :: string

text \<open>Affinity rules are only copied from the intent to the result.\<close>

datatype Affinity = Affinity string

record ObjectMeta =
  om_Labels :: "string \<rightharpoonup> string"
  om_Annotations :: "string \<rightharpoonup> string"

record PodSpec =
  ps_Volumes :: "Volume list"
  ps_InitContainers :: "Container list"
  ps_Containers :: "Container list"
  ps_RestartPolicy :: string
  ps_NodeSelector :: "string \<rightharpoonup> string"
  ps_ServiceAccountName :: string
  ps_SecurityContext :: "PodSecurityContext option"
  ps_ImagePullSecrets :: "string list"
  ps_Affinity :: "Affinity option"
  ps_Tolerations :: "Toleration list"
  ps_PriorityClassName :: string

record PodTemplateSpec =
  pts_ObjectMeta :: ObjectMeta
  pts_Spec :: PodSpec

section \<open>The intent: the Wordpress resource\<close>

text \<open>
  The resource type is declared outside \<open>pod_template.go\<close>; the records below have
  exactly the fields that file reads, under the names it reads them by.
\<close>

record PersistentVolumeClaimSpec =
  pvc_StorageClassName :: "string option"
  pvc_Storage :: Quantity

record GitVolumeSource =
  git_Repository :: string
  git_GitRef :: string
  git_Env :: "EnvVar list"
  git_EnvFrom :: "EnvFromSource list"
  git_EmptyDir :: "EmptyDirVolumeSource option"

record CodeVolumeSpec =
  cv_ReadOnly :: bool
  cv_MountPath :: string
  cv_ContentSubPath :: string
  cv_ConfigSubPath :: string
  cv_GitDir :: "GitVolumeSource option"
  cv_PersistentVolumeClaim :: "PersistentVolumeClaimSpec option"
  cv_HostPath :: "HostPathVolumeSource option"
  cv_EmptyDir :: "EmptyDirVolumeSource option"

record S3VolumeSource =
  s3_Bucket :: string
  s3_PathPrefix :: string
  s3_Env :: "EnvVar list"

record GCSVolumeSource =
  gcs_Bucket :: string
  gcs_PathPrefix :: string
  gcs_Env :: "EnvVar list"

record MediaVolumeSpec =
  mv_ReadOnly :: bool
  mv_MountPath :: string
  mv_ContentSubPath :: string
  mv_S3VolumeSource :: "S3VolumeSource option"
  mv_GCSVolumeSource :: "GCSVolumeSource option"
  mv_PersistentVolumeClaim :: "PersistentVolumeClaimSpec option"
  mv_HostPath :: "HostPathVolumeSource option"
  mv_EmptyDir :: "EmptyDirVolumeSource option"

record RouteSpec =
  r_Domain :: string
  r_Path :: string

record WordpressBootstrapSpec =
  wb_Env :: "EnvVar list"
  wb_EnvFrom :: "EnvFromSource list"

record WordpressSpec =
  ws_Image :: string
  ws_ImagePullPolicy :: string
  ws_ImagePullSecrets :: "string list"
  ws_ServiceAccountName :: string
  ws_Routes :: "RouteSpec list"
  ws_WordpressPathPrefix :: string
  ws_CodeVolumeSpec :: "CodeVolumeSpec option"
  ws_MediaVolumeSpec :: "MediaVolumeSpec option"
  ws_WordpressBootstrapSpec :: "WordpressBootstrapSpec option"
  ws_Env :: "EnvVar list"
  ws_EnvFrom :: "EnvFromSource list"
  ws_Volumes :: "Volume list"
  ws_VolumeMounts :: "VolumeMount list"
  ws_InitContainers :: "Container list"
  ws_Sidecars :: "Container list"
  ws_Resources :: ResourceRequirements
  ws_ReadinessProbe :: "Probe option"
  ws_LivenessProbe :: "Probe option"
  ws_NodeSelector :: "string \<rightharpoonup> string"
  ws_Tolerations :: "Toleration list"
  ws_Affinity :: "Affinity option"
  ws_PriorityClassName :: string
  ws_PodMetadata :: "ObjectMeta option"

record Wordpress =
  wp_Name :: string
  wp_Namespace :: string
  wp_Spec :: WordpressSpec

section \<open>What the file takes from the rest of the repository\<close>

text \<open>
  \<open>pod_template.go\<close> calls methods of the resource and reads constants that are declared
  in other files of the package. They are parameters of the model: every function
  below takes them as the record \<open>X\<close>, so every theorem holds whatever they are.
\<close>

datatype component = WordpressSecret | WordpressCodePVC | WordpressMediaPVC

record externals =
  MainDomain :: "Wordpress \<Rightarrow> string"
  HomeURL :: "Wordpress \<Rightarrow> string"
  SiteURL :: "Wordpress \<Rightarrow> string"
  ComponentName :: "Wordpress \<Rightarrow> component \<Rightarrow> string"
  WebPodLabels :: "Wordpress \<Rightarrow> (string \<rightharpoonup> string)"
  JobPodLabels :: "Wordpress \<Rightarrow> (string \<rightharpoonup> string)"
  codeSrcMountPath :: string
  configMountPath :: string
  knativeVarLogMountPath :: string
  knativeVarLogVolume :: string
  knativeInternalMountPath :: string
  knativeInternalVolume :: string
  varLogSizeLimit :: Quantity
  GitCloneImage :: string

section \<open>Functions of the Go standard library\<close>

text \<open>
  \<open>path.Clean\<close>: the loop reads the path from the left and writes the cleaned path
  into a buffer. Here \<open>p\<close> is the part of the path not read yet, \<open>buf\<close> the buffer
  written so far (\<open>out.w\<close> is its length) and \<open>dotdot\<close> the index where a \<open>..\<close>
  must stop backtracking. \<open>backtrack\<close> is the inner loop that moves \<open>out.w\<close> back to
  the last slash.
\<close>

fun backtrack :: "string \<Rightarrow> nat \<Rightarrow> nat \<Rightarrow> nat" where
  "backtrack buf dotdot w =
     (if w > dotdot \<and> buf ! w \<noteq> CHR ''/'' then backtrack buf dotdot (w - 1) else w)"

declare backtrack.simps [simp del]

function cleanLoop :: "bool \<Rightarrow> string \<Rightarrow> string \<Rightarrow> nat \<Rightarrow> string" where
  "cleanLoop rooted [] buf dotdot = buf"
| "cleanLoop rooted (c # p) buf dotdot =
     (if c = CHR ''/'' then cleanLoop rooted p buf dotdot
      else if c = CHR ''.'' \<and> (p = [] \<or> hd p = CHR ''/'') then cleanLoop rooted p buf dotdot
      else if c = CHR ''.'' \<and> hd p = CHR ''.'' \<and> (tl p = [] \<or> hd (tl p) = CHR ''/'') then
        (if length buf > dotdot then
           cleanLoop rooted (tl p) (take (backtrack buf dotdot (length buf - 1)) buf) dotdot
         else if \<not> rooted then
           (let buf' = (if length buf > 0 then buf @ ''/'' else buf) @ ''..''
            in cleanLoop rooted (tl p) buf' (length buf'))
         else cleanLoop rooted (tl p) buf dotdot)
      else
        (let buf' = (if rooted \<and> length buf \<noteq> 1 \<or> \<not> rooted \<and> length buf \<noteq> 0
                     then buf @ ''/'' else buf)
         in cleanLoop rooted (dropWhile (\<lambda>x. x \<noteq> CHR ''/'') (c # p))
              (buf' @ takeWhile (\<lambda>x. x \<noteq> CHR ''/'') (c # p)) dotdot))"
  by pat_completeness auto
termination
proof (relation "measure (\<lambda>(rooted, p, buf, dotdot). length p)", goal_cases)
  case (7 rooted c p buf dotdot x)
  have "length (dropWhile (\<lambda>x. x \<noteq> CHR ''/'') p) \<le> length p"
    by (rule length_dropWhile_le)
  with \<open>c \<noteq> CHR ''/''\<close> show ?case by simp
qed simp_all

declare cleanLoop.simps [simp del]

definition path_Clean :: "string \<Rightarrow> string" where
  "path_Clean path =
     (if path = [] then ''.''
      else
        (let rooted = (hd path = CHR ''/'');
             buf = (if rooted then cleanLoop True (tl path) ''/'' 1
                    else cleanLoop False path [] 0)
         in if length buf = 0 then ''.'' else buf))"

text \<open>
  \<open>path.Join\<close>: the elements that are not empty, joined by slashes and cleaned; the
  empty string when every element is empty.
\<close>

definition path_Join :: "string list \<Rightarrow> string" where
  "path_Join elem =
     (if sum_list (map length elem) = 0 then []
      else path_Clean
        (foldl (\<lambda>buf e. if length buf > 0 \<or> e \<noteq> []
                          then (if length buf > 0 then buf @ ''/'' else buf) @ e
                          else buf) [] elem))"

text \<open>\<open>strings.Join\<close>: the elements with the separator between each two of them.\<close>

fun strings_Join :: "string list \<Rightarrow> string \<Rightarrow> string" where
  "strings_Join [] sep = []"
| "strings_Join [x] sep = x"
| "strings_Join (x # y # ys) sep = x @ sep @ strings_Join (y # ys) sep"

section \<open>Constants of the file\<close>

definition InternalHTTPPort :: int where
  "InternalHTTPPort = 8080"

definition MetricsExporterPort :: int where
  "MetricsExporterPort = 9145"

definition codeVolumeName :: string where
  "codeVolumeName = ''code''"

definition mediaVolumeName :: string where
  "mediaVolumeName = ''media''"

definition s3Prefix :: string where
  "s3Prefix = ''s3''"

definition gcsPrefix :: string where
  "gcsPrefix = ''gs''"

definition wwwDataUserID :: int where
  "wwwDataUserID = 33"

definition s3EnvVars :: "string \<rightharpoonup> string" where
  "s3EnvVars = map_of
     [(''AWS_ACCESS_KEY_ID'', ''AWS_ACCESS_KEY_ID''),
      (''AWS_SECRET_ACCESS_KEY'', ''AWS_SECRET_ACCESS_KEY''),
      (''AWS_CONFIG_FILE'', ''AWS_CONFIG_FILE''),
      (''ENDPOINT'', ''S3_ENDPOINT'')]"

definition gcsEnvVars :: "string \<rightharpoonup> string" where
  "gcsEnvVars = map_of
     [(''GOOGLE_CREDENTIALS'', ''GOOGLE_CREDENTIALS''),
      (''GOOGLE_APPLICATION_CREDENTIALS'', ''GOOGLE_APPLICATION_CREDENTIALS'')]"

section \<open>The environment composer\<close>

text \<open>
  The loop of \<open>mediaEnv\<close> over the credential entries of a backend: an entry whose
  name is a key of the table is copied, renamed and appended to \<open>out\<close>; any other entry
  is skipped.
\<close>

fun mediaEnv_loop :: "(string \<rightharpoonup> string) \<Rightarrow> EnvVar list \<Rightarrow> EnvVar list \<Rightarrow> EnvVar list" where
  "mediaEnv_loop tbl out [] = out"
| "mediaEnv_loop tbl out (env # envs) =
     (case tbl (ev_Name env) of
        Some name \<Rightarrow> mediaEnv_loop tbl (out @ [env\<lparr>ev_Name := name\<rparr>]) envs
      | None \<Rightarrow> mediaEnv_loop tbl out envs)"

definition mediaEnv :: "Wordpress \<Rightarrow> EnvVar list" where
  "mediaEnv wp =
     (case ws_MediaVolumeSpec (wp_Spec wp) of
        None \<Rightarrow> []
      | Some m \<Rightarrow>
          (let out = [];
               out = (case mv_S3VolumeSource m of
                        None \<Rightarrow> out
                      | Some s3 \<Rightarrow>
                          (let bucket = path_Join [s3_Bucket s3, s3_PathPrefix s3];
                               out = out @ [\<lparr>ev_Name = ''STACK_MEDIA_BUCKET'',
                                             ev_Value = s3Prefix @ ''://'' @ bucket,
                                             ev_ValueFrom = None\<rparr>]
                           in mediaEnv_loop s3EnvVars out (s3_Env s3)));
               out = (case mv_GCSVolumeSource m of
                        None \<Rightarrow> out
                      | Some gcs \<Rightarrow>
                          (let bucket = path_Join [gcs_Bucket gcs, gcs_PathPrefix gcs];
                               out = out @ [\<lparr>ev_Name = ''STACK_MEDIA_BUCKET'',
                                             ev_Value = gcsPrefix @ ''://'' @ bucket,
                                             ev_ValueFrom = None\<rparr>]
                           in mediaEnv_loop gcsEnvVars out (gcs_Env gcs)))
           in out))"

definition routes :: "externals \<Rightarrow> Wordpress \<Rightarrow> string list" where
  "routes X wp =
     (if length (ws_Routes (wp_Spec wp)) = 0 then [MainDomain X wp]
      else map (\<lambda>r. path_Join [r_Domain r, r_Path r]) (ws_Routes (wp_Spec wp)))"

definition env :: "externals \<Rightarrow> Wordpress \<Rightarrow> EnvVar list" where
  "env X wp =
     (let out =
            [\<lparr>ev_Name = ''WP_HOME'', ev_Value = HomeURL X wp, ev_ValueFrom = None\<rparr>,
             \<lparr>ev_Name = ''WP_SITEURL'', ev_Value = SiteURL X wp, ev_ValueFrom = None\<rparr>,
             \<lparr>ev_Name = ''WP_CORE_DIRECTORY'',
              ev_Value = ws_WordpressPathPrefix (wp_Spec wp), ev_ValueFrom = None\<rparr>,
             \<lparr>ev_Name = ''STACK_ROUTES'',
              ev_Value = strings_Join (routes X wp) '','', ev_ValueFrom = None\<rparr>,
             \<lparr>ev_Name = ''STACK_SITE_NAME'', ev_Value = wp_Name wp, ev_ValueFrom = None\<rparr>,
             \<lparr>ev_Name = ''STACK_SITE_NAMESPACE'',
              ev_Value = wp_Namespace wp, ev_ValueFrom = None\<rparr>]
            @ ws_Env (wp_Spec wp);
          out = out @ mediaEnv wp
      in out)"

definition envFrom :: "externals \<Rightarrow> Wordpress \<Rightarrow> EnvFromSource list" where
  "envFrom X wp =
     (let out = [\<lparr>efs_Prefix = [], efs_ConfigMapRef = None,
                  efs_SecretRef = Some (ComponentName X wp WordpressSecret)\<rparr>];
          out = out @ ws_EnvFrom (wp_Spec wp)
      in out)"

section \<open>The source resolver\<close>

definition hasMediaMounts :: "Wordpress \<Rightarrow> bool" where
  "hasMediaMounts wp =
     (case ws_MediaVolumeSpec (wp_Spec wp) of
        None \<Rightarrow> False
      | Some m \<Rightarrow>
          (if mv_PersistentVolumeClaim m \<noteq> None then True
           else if mv_HostPath m \<noteq> None then True
           else if mv_EmptyDir m \<noteq> None then True
           else False))"

definition hasCodeMounts :: "Wordpress \<Rightarrow> bool" where
  "hasCodeMounts wp =
     (case ws_CodeVolumeSpec (wp_Spec wp) of
        None \<Rightarrow> False
      | Some c \<Rightarrow>
          (if cv_GitDir c \<noteq> None then True
           else if cv_PersistentVolumeClaim c \<noteq> None then True
           else if cv_HostPath c \<noteq> None then True
           else if cv_EmptyDir c \<noteq> None then True
           else False))"

text \<open>The zero values of the Go structs, for the fields a composite literal leaves out.\<close>

definition zeroVolumeSource :: VolumeSource where
  "zeroVolumeSource =
     \<lparr>vs_HostPath = None, vs_EmptyDir = None, vs_PersistentVolumeClaim = None\<rparr>"

definition zeroEmptyDir :: EmptyDirVolumeSource where
  "zeroEmptyDir = \<lparr>ed_Medium = [], ed_SizeLimit = None\<rparr>"

definition zeroVolumeMount :: VolumeMount where
  "zeroVolumeMount = \<lparr>vm_Name = [], vm_ReadOnly = False, vm_MountPath = [], vm_SubPath = []\<rparr>"

definition zeroContainer :: Container where
  "zeroContainer =
     \<lparr>c_Name = [], c_Image = [], c_Command = [], c_Args = [], c_Ports = [],
      c_EnvFrom = [], c_Env = [],
      c_Resources = \<lparr>rr_Limits = Map.empty, rr_Requests = Map.empty\<rparr>,
      c_VolumeMounts = [], c_LivenessProbe = None, c_ReadinessProbe = None,
      c_Lifecycle = None, c_ImagePullPolicy = [], c_SecurityContext = None\<rparr>"

definition zeroHandler :: Handler where
  "zeroHandler = \<lparr>h_Exec = None, h_HTTPGet = None, h_TCPSocket = None\<rparr>"

definition zeroPodTemplateSpec :: PodTemplateSpec where
  "zeroPodTemplateSpec =
     \<lparr>pts_ObjectMeta = \<lparr>om_Labels = Map.empty, om_Annotations = Map.empty\<rparr>,
      pts_Spec =
        \<lparr>ps_Volumes = [], ps_InitContainers = [], ps_Containers = [],
         ps_RestartPolicy = [], ps_NodeSelector = Map.empty, ps_ServiceAccountName = [],
         ps_SecurityContext = None, ps_ImagePullSecrets = [], ps_Affinity = None,
         ps_Tolerations = [], ps_PriorityClassName = []\<rparr>\<rparr>"

definition codeVolume :: "externals \<Rightarrow> Wordpress \<Rightarrow> Volume" where
  "codeVolume X wp =
     (let codeVolume =
            \<lparr>v_Name = codeVolumeName,
             v_VolumeSource = zeroVolumeSource\<lparr>vs_EmptyDir := Some zeroEmptyDir\<rparr>\<rparr>
      in case ws_CodeVolumeSpec (wp_Spec wp) of
           None \<Rightarrow> codeVolume
         | Some c \<Rightarrow>
             (case cv_GitDir c of
                Some g \<Rightarrow>
                  (case git_EmptyDir g of
                     Some e \<Rightarrow>
                       codeVolume\<lparr>v_VolumeSource :=
                         (v_VolumeSource codeVolume)\<lparr>vs_EmptyDir := Some e\<rparr>\<rparr>
                   | None \<Rightarrow> codeVolume)
              | None \<Rightarrow>
                  (case cv_PersistentVolumeClaim c of
                     Some pvc \<Rightarrow>
                       \<lparr>v_Name = codeVolumeName,
                        v_VolumeSource = zeroVolumeSource
                          \<lparr>vs_PersistentVolumeClaim :=
                             Some \<lparr>pvcs_ClaimName = ComponentName X wp WordpressCodePVC,
                                   pvcs_ReadOnly = False\<rparr>\<rparr>\<rparr>
                   | None \<Rightarrow>
                       (case cv_HostPath c of
                          Some h \<Rightarrow>
                            \<lparr>v_Name = codeVolumeName,
                             v_VolumeSource = zeroVolumeSource\<lparr>vs_HostPath := Some h\<rparr>\<rparr>
                        | None \<Rightarrow>
                            (case cv_EmptyDir c of
                               Some e \<Rightarrow>
                                 codeVolume\<lparr>v_VolumeSource :=
                                   (v_VolumeSource codeVolume)\<lparr>vs_EmptyDir := Some e\<rparr>\<rparr>
                             | None \<Rightarrow> codeVolume)))))"

definition mediaVolume :: "externals \<Rightarrow> Wordpress \<Rightarrow> Volume" where
  "mediaVolume X wp =
     (let mediaVolume =
            \<lparr>v_Name = mediaVolumeName,
             v_VolumeSource = zeroVolumeSource\<lparr>vs_EmptyDir := Some zeroEmptyDir\<rparr>\<rparr>
      in case ws_MediaVolumeSpec (wp_Spec wp) of
           None \<Rightarrow> mediaVolume
         | Some m \<Rightarrow>
             (case mv_PersistentVolumeClaim m of
                Some pvc \<Rightarrow>
                  \<lparr>v_Name = mediaVolumeName,
                   v_VolumeSource = zeroVolumeSource
                     \<lparr>vs_PersistentVolumeClaim :=
                        Some \<lparr>pvcs_ClaimName = ComponentName X wp WordpressMediaPVC,
                              pvcs_ReadOnly = False\<rparr>\<rparr>\<rparr>
              | None \<Rightarrow>
                  (case mv_HostPath m of
                     Some h \<Rightarrow>
                       \<lparr>v_Name = mediaVolumeName,
                        v_VolumeSource = zeroVolumeSource\<lparr>vs_HostPath := Some h\<rparr>\<rparr>
                   | None \<Rightarrow>
                       (case mv_EmptyDir m of
                          Some e \<Rightarrow>
                            mediaVolume\<lparr>v_VolumeSource :=
                              (v_VolumeSource mediaVolume)\<lparr>vs_EmptyDir := Some e\<rparr>\<rparr>
                        | None \<Rightarrow> mediaVolume))))"

section \<open>The volume and mount planner\<close>

text \<open>
  A function that reads through a pointer returns an \<open>option\<close>: \<open>None\<close> is the panic
  of Go on a \<open>nil\<close> pointer, and binding the pointer field (\<open>c \<leftarrow> ws_CodeVolumeSpec ...\<close>)
  is the dereference.
\<close>

definition gitCloneEnv :: "externals \<Rightarrow> Wordpress \<Rightarrow> EnvVar list option" where
  "gitCloneEnv X wp = do {
     c \<leftarrow> ws_CodeVolumeSpec (wp_Spec wp);
     case cv_GitDir c of
       None \<Rightarrow> Some []
     | Some g \<Rightarrow>
         (let out = [\<lparr>ev_Name = ''GIT_CLONE_URL'', ev_Value = git_Repository g,
                       ev_ValueFrom = None\<rparr>,
                     \<lparr>ev_Name = ''SRC_DIR'', ev_Value = codeSrcMountPath X,
                       ev_ValueFrom = None\<rparr>];
              out = (if length (git_GitRef g) > 0
                     then out @ [\<lparr>ev_Name = ''GIT_CLONE_REF'', ev_Value = git_GitRef g,
                                   ev_ValueFrom = None\<rparr>]
                     else out);
              out = out @ git_Env g
          in Some out)
   }"

definition volumeMounts :: "externals \<Rightarrow> Wordpress \<Rightarrow> VolumeMount list option" where
  "volumeMounts X wp = do {
     let out = [zeroVolumeMount\<lparr>vm_MountPath := knativeVarLogMountPath X,
                                 vm_Name := knativeVarLogVolume X\<rparr>];
     let out = out @ ws_VolumeMounts (wp_Spec wp);
     out \<leftarrow> (if hasCodeMounts wp then do {
                 c \<leftarrow> ws_CodeVolumeSpec (wp_Spec wp);
                 let out = out @ [zeroVolumeMount\<lparr>vm_MountPath := codeSrcMountPath X,
                                                   vm_Name := codeVolumeName,
                                                   vm_ReadOnly := cv_ReadOnly c\<rparr>];
                 let out = out @ [zeroVolumeMount\<lparr>vm_MountPath := cv_MountPath c,
                                                   vm_Name := codeVolumeName,
                                                   vm_ReadOnly := cv_ReadOnly c,
                                                   vm_SubPath := cv_ContentSubPath c\<rparr>];
                 let out = out @ [zeroVolumeMount\<lparr>vm_MountPath := configMountPath X,
                                                   vm_Name := codeVolumeName,
                                                   vm_ReadOnly := True,
                                                   vm_SubPath := cv_ConfigSubPath c\<rparr>];
                 Some out
               } else Some out);
     out \<leftarrow> (if hasMediaMounts wp then do {
                 m \<leftarrow> ws_MediaVolumeSpec (wp_Spec wp);
                 let v = zeroVolumeMount\<lparr>vm_MountPath := mv_MountPath m,
                                          vm_Name := mediaVolumeName,
                                          vm_ReadOnly := mv_ReadOnly m\<rparr>;
                 let v = (if mv_ContentSubPath m \<noteq> []
                          then v\<lparr>vm_SubPath := mv_ContentSubPath m\<rparr> else v);
                 Some (out @ [v])
               } else Some out);
     Some out
   }"

definition volumes :: "externals \<Rightarrow> Wordpress \<Rightarrow> Volume list" where
  "volumes X wp =
     (let volumes =
            [\<lparr>v_Name = knativeInternalVolume X,
              v_VolumeSource = zeroVolumeSource\<lparr>vs_EmptyDir := Some zeroEmptyDir\<rparr>\<rparr>,
             \<lparr>v_Name = knativeVarLogVolume X,
              v_VolumeSource = zeroVolumeSource
                \<lparr>vs_EmptyDir := Some (zeroEmptyDir\<lparr>ed_SizeLimit := Some (varLogSizeLimit X)\<rparr>)\<rparr>\<rparr>];
          volumes = volumes @ ws_Volumes (wp_Spec wp);
          volumes = (if hasCodeMounts wp then volumes @ [codeVolume X wp] else volumes);
          volumes = (if hasMediaMounts wp then volumes @ [mediaVolume X wp] else volumes)
      in volumes)"

section \<open>The init step sequencer\<close>

text \<open>The script of the code-fetch step, byte for byte.\<close>

definition gitCloneScript :: string where
  \<open>gitCloneScript =
     ''#!/bin/bash\<newline>'' @
     ''set -e\<newline>'' @
     ''set -o pipefail\<newline>'' @
     ''\<newline>'' @
     ''export HOME="$(mktemp -d)"\<newline>'' @
     ''export GIT_SSH_COMMAND="ssh -o UserKnownHostsFile=$HOME/.ssh/knonw_hosts -o StrictHostKeyChecking=no"\<newline>'' @
     ''\<newline>'' @
     ''test -d "$HOME/.ssh" || mkdir "$HOME/.ssh"\<newline>'' @
     ''\<newline>'' @
     ''if [ ! -z "$SSH_RSA_PRIVATE_KEY" ] ; then\<newline>'' @
     ''    echo "$SSH_RSA_PRIVATE_KEY" > "$HOME/.ssh/id_rsa"\<newline>'' @
     ''    chmod 0400 "$HOME/.ssh/id_rsa"\<newline>'' @
     ''    export GIT_SSH_COMMAND="$GIT_SSH_COMMAND -o IdentityFile=$HOME/.ssh/id_rsa"\<newline>'' @
     ''fi\<newline>'' @
     ''\<newline>'' @
     ''if [ -z "$GIT_CLONE_URL" ] ; then\<newline>'' @
     ''    echo "No '' @ [CHR 0x5C] @ ''$GIT_CLONE_URL specified" >&2\<newline>'' @
     ''    exit 1\<newline>'' @
     ''fi\<newline>'' @
     ''\<newline>'' @
     ''find "$SRC_DIR" -maxdepth 1 -mindepth 1 -print0 | xargs -0 /bin/rm -rf\<newline>'' @
     ''\<newline>'' @
     ''set -x\<newline>'' @
     ''git clone "$GIT_CLONE_URL" "$SRC_DIR"\<newline>'' @
     ''cd "$SRC_DIR"\<newline>'' @
     ''git checkout -B "$GIT_CLONE_REF" "origin/$GIT_CLONE_REF"\<newline>''\<close>

text \<open>\<open>fmt.Sprintf("%d", n)\<close>: the decimal digits of an integer.\<close>

fun digits :: "nat \<Rightarrow> string" where
  "digits n =
     (if n < 10 then [char_of (48 + n)]
      else digits (n div 10) @ [char_of (48 + n mod 10)])"

declare digits.simps [simp del]

definition Sprintf_d :: "int \<Rightarrow> string" where
  "Sprintf_d i = (if i < 0 then ''-'' @ digits (nat (- i)) else digits (nat i))"

text \<open>
  What \<open>prepareVolumesScriptTemplate.Execute\<close> writes: the text of
  \<open>prepareVolumesScriptTpl\<close> with each \<open>{{ .key }}\<close> replaced by the value the map
  gives the key.
\<close>

definition prepareVolumesScript :: "string \<Rightarrow> string \<Rightarrow> string \<Rightarrow> string" where
  "prepareVolumesScript wwwDataUserID' knativeInternalDir knativeVarLogDir =
     ''#!/bin/sh\<newline>'' @
     ''test -d /mnt/code && chown '' @ wwwDataUserID' @ '':'' @ wwwDataUserID'
       @ '' /mnt/code\<newline>'' @
     ''test -d /mnt/media && chown '' @ wwwDataUserID' @ '':'' @ wwwDataUserID'
       @ '' /mnt/media\<newline>'' @
     ''test -d '' @ knativeVarLogDir @ '' && chown '' @ wwwDataUserID' @ '':''
       @ wwwDataUserID' @ '' '' @ knativeVarLogDir @ ''\<newline>'' @
     ''ln -sf ../log '' @ knativeInternalDir
       @ ''/${POD_NAMESPACE}_${POD_NAME}_wordpress\<newline>''"

definition prepareVolumesImage :: string where
  "prepareVolumesImage =
     ''gcr.io/google-containers/busybox@sha256:545e6a6310a27636260920bc07b994a299b6708a1b26910cfefd335fdfb60d2b''"

definition securityContext :: "Wordpress \<Rightarrow> SecurityContext" where
  "securityContext wp =
     (let defaultProcMount = ''Default''
      in \<lparr>sc_RunAsUser = Some wwwDataUserID, sc_ProcMount = Some defaultProcMount\<rparr>)"

definition gitCloneContainer :: "externals \<Rightarrow> Wordpress \<Rightarrow> Container option" where
  "gitCloneContainer X wp = do {
     env' \<leftarrow> gitCloneEnv X wp;
     c \<leftarrow> ws_CodeVolumeSpec (wp_Spec wp);
     g \<leftarrow> cv_GitDir c;
     Some (zeroContainer
       \<lparr>c_Name := ''git'',
        c_Args := [''/bin/bash'', ''-c'', gitCloneScript],
        c_Image := GitCloneImage X,
        c_Env := env',
        c_EnvFrom := git_EnvFrom g,
        c_VolumeMounts := [zeroVolumeMount\<lparr>vm_Name := codeVolumeName,
                                            vm_MountPath := codeSrcMountPath X\<rparr>],
        c_SecurityContext := Some (securityContext wp)\<rparr>)
   }"

definition prepareVolumesContainer :: "externals \<Rightarrow> Wordpress \<Rightarrow> Container option" where
  "prepareVolumesContainer X wp = do {
     let script = prepareVolumesScript (Sprintf_d wwwDataUserID)
                    (knativeInternalMountPath X) (knativeVarLogMountPath X);
     let c = zeroContainer
       \<lparr>c_Name := ''prepare-volumes'',
        c_Args := [''/bin/sh'', ''-c'', script],
        c_Image := prepareVolumesImage,
        c_VolumeMounts :=
          [zeroVolumeMount\<lparr>vm_Name := knativeInternalVolume X,
                           vm_MountPath := knativeInternalMountPath X\<rparr>,
           zeroVolumeMount\<lparr>vm_Name := knativeVarLogVolume X,
                           vm_MountPath := knativeVarLogMountPath X\<rparr>],
        c_Env :=
          [\<lparr>ev_Name = ''POD_NAMESPACE'', ev_Value = [],
            ev_ValueFrom = Some \<lparr>evs_FieldRef = Some \<lparr>ofs_FieldPath = ''metadata.namespace''\<rparr>,
                                 evs_ResourceFieldRef = None, evs_ConfigMapKeyRef = None,
                                 evs_SecretKeyRef = None\<rparr>\<rparr>,
           \<lparr>ev_Name = ''POD_NAME'', ev_Value = [],
            ev_ValueFrom = Some \<lparr>evs_FieldRef = Some \<lparr>ofs_FieldPath = ''metadata.name''\<rparr>,
                                 evs_ResourceFieldRef = None, evs_ConfigMapKeyRef = None,
                                 evs_SecretKeyRef = None\<rparr>\<rparr>]\<rparr>;
     c \<leftarrow> (if hasCodeMounts wp then do {
               cv \<leftarrow> ws_CodeVolumeSpec (wp_Spec wp);
               if \<not> cv_ReadOnly cv then do {
                 let m = zeroVolumeMount\<lparr>vm_Name := codeVolumeName,
                                          vm_MountPath := ''/mnt/code''\<rparr>;
                 let m = (if cv_ContentSubPath cv \<noteq> []
                          then m\<lparr>vm_SubPath := cv_ContentSubPath cv\<rparr> else m);
                 Some (c\<lparr>c_VolumeMounts := c_VolumeMounts c @ [m]\<rparr>)
               } else Some c
             } else Some c);
     c \<leftarrow> (if hasMediaMounts wp then do {
               mv \<leftarrow> ws_MediaVolumeSpec (wp_Spec wp);
               if \<not> mv_ReadOnly mv then do {
                 let m = zeroVolumeMount\<lparr>vm_Name := mediaVolumeName,
                                          vm_MountPath := ''/mnt/media''\<rparr>;
                 let m = (if mv_ContentSubPath mv \<noteq> []
                          then m\<lparr>vm_SubPath := mv_ContentSubPath mv\<rparr> else m);
                 Some (c\<lparr>c_VolumeMounts := c_VolumeMounts c @ [m]\<rparr>)
               } else Some c
             } else Some c);
     Some c
   }"

definition installWPContainer :: "externals \<Rightarrow> Wordpress \<Rightarrow> Container list option" where
  "installWPContainer X wp =
     (case ws_WordpressBootstrapSpec (wp_Spec wp) of
        None \<Rightarrow> Some []
      | Some b \<Rightarrow> do {
          mounts \<leftarrow> volumeMounts X wp;
          Some [zeroContainer
            \<lparr>c_Name := ''install-wp'',
             c_Image := ws_Image (wp_Spec wp),
             c_VolumeMounts := mounts,
             c_Env := env X wp @ wb_Env b,
             c_EnvFrom := envFrom X wp @ wb_EnvFrom b,
             c_SecurityContext := Some (securityContext wp),
             c_Command := [''wp-install''],
             c_Args := [''$(WORDPRESS_BOOTSTRAP_TITLE)'',
                        HomeURL X wp,
                        ''$(WORDPRESS_BOOTSTRAP_USER)'',
                        ''$(WORDPRESS_BOOTSTRAP_PASSWORD)'',
                        ''$(WORDPRESS_BOOTSTRAP_EMAIL)'']\<rparr>]
        })"

definition initContainers :: "externals \<Rightarrow> Wordpress \<Rightarrow> Container list option" where
  "initContainers X wp = do {
     let containers = [];
     containers \<leftarrow> (if hasMediaMounts wp \<or> hasCodeMounts wp then do {
                        c \<leftarrow> prepareVolumesContainer X wp;
                        Some (containers @ [c])
                      } else Some containers);
     let containers = containers @ ws_InitContainers (wp_Spec wp);
     containers \<leftarrow> (if (case ws_CodeVolumeSpec (wp_Spec wp) of
                            None \<Rightarrow> False
                          | Some c \<Rightarrow> cv_GitDir c \<noteq> None)
                      then do {
                        g \<leftarrow> gitCloneContainer X wp;
                        Some (containers @ [g])
                      } else Some containers);
     install \<leftarrow> installWPContainer X wp;
     let containers = containers @ install;
     Some containers
   }"

section \<open>The probe defaulter\<close>

definition readinessProbe :: "externals \<Rightarrow> Wordpress \<Rightarrow> Probe" where
  "readinessProbe X wp =
     (case ws_ReadinessProbe (wp_Spec wp) of
        Some p \<Rightarrow> p
      | None \<Rightarrow>
          \<lparr>p_Handler = zeroHandler
             \<lparr>h_HTTPGet := Some
                \<lparr>hg_Path = ''/'', hg_Port = IntVal InternalHTTPPort, hg_Host = [],
                 hg_Scheme = [],
                 hg_HTTPHeaders = [\<lparr>hh_Name = ''Host'', hh_Value = MainDomain X wp\<rparr>]\<rparr>\<rparr>,
           p_InitialDelaySeconds = 10,
           p_TimeoutSeconds = 30,
           p_PeriodSeconds = 5,
           p_SuccessThreshold = 1,
           p_FailureThreshold = 3\<rparr>)"

definition livenessProbe :: "externals \<Rightarrow> Wordpress \<Rightarrow> Probe" where
  "livenessProbe X wp =
     (case ws_LivenessProbe (wp_Spec wp) of
        Some p \<Rightarrow> p
      | None \<Rightarrow>
          \<lparr>p_Handler = zeroHandler
             \<lparr>h_HTTPGet := Some
                \<lparr>hg_Path = ''/-/php-ping'', hg_Port = IntVal InternalHTTPPort, hg_Host = [],
                 hg_Scheme = [], hg_HTTPHeaders = []\<rparr>\<rparr>,
           p_InitialDelaySeconds = 10,
           p_TimeoutSeconds = 30,
           p_PeriodSeconds = 5,
           p_SuccessThreshold = 1,
           p_FailureThreshold = 3\<rparr>)"

section \<open>The template assembler\<close>

text \<open>
  Go ranges over a map in an order the runtime chooses anew at every loop, so the order
  is an input of each run: \<open>ord m\<close> is the sequence in which this run visits the entries
  of the map \<open>m\<close>. \<open>enumerates\<close> says that a sequence visits every entry of the map once.
  The two library functions the assemblers call that range over a map are
  \<open>labels.Merge\<close>, which copies the entries of its first and then of its second argument
  into a fresh map, and \<open>ObjectMeta.DeepCopyInto\<close>, which copies each map entry by entry.
\<close>

type_synonym iteration = "(string \<rightharpoonup> string) \<Rightarrow> (string \<times> string) list"

definition enumerates :: "(string \<times> string) list \<Rightarrow> (string \<rightharpoonup> string) \<Rightarrow> bool" where
  "enumerates kvs m = (distinct (map fst kvs) \<and> map_of kvs = m)"

definition range_copy :: "(string \<times> string) list \<Rightarrow> (string \<rightharpoonup> string) \<Rightarrow> (string \<rightharpoonup> string)" where
  "range_copy kvs mergedMap = foldl (\<lambda>m (k, v). m(k \<mapsto> v)) mergedMap kvs"

definition labels_Merge :: "iteration \<Rightarrow> (string \<rightharpoonup> string) \<Rightarrow> (string \<rightharpoonup> string) \<Rightarrow> (string \<rightharpoonup> string)" where
  "labels_Merge ord labels1 labels2 =
     (let mergedMap = Map.empty;
          mergedMap = range_copy (ord labels1) mergedMap;
          mergedMap = range_copy (ord labels2) mergedMap
      in mergedMap)"

definition DeepCopyInto :: "iteration \<Rightarrow> ObjectMeta \<Rightarrow> ObjectMeta" where
  "DeepCopyInto ord md =
     \<lparr>om_Labels = range_copy (ord (om_Labels md)) Map.empty,
      om_Annotations = range_copy (ord (om_Annotations md)) Map.empty\<rparr>"

definition postStartCommand :: "string list" where
  \<open>postStartCommand =
     [''/bin/sh'', ''-c'',
      ''if test -n "$POST_START_SCRIPTS" && command -v run-parts >/dev/null 2>&1 && test -d "$POST_START_SCRIPTS"  ; then run-parts --exit-on-error -v "$POST_START_SCRIPTS" ; fi'']\<close>

definition preStopCommand :: "string list" where
  \<open>preStopCommand =
     [''/bin/sh'', ''-c'',
      ''if test -n "$PRE_STOP_SCRIPTS" && command -v run-parts >/dev/null 2>&1 && test -d "$PRE_STOP_SCRIPTS"  ; then run-parts --exit-on-error -v "$PRE_STOP_SCRIPTS" ; fi'']\<close>

definition WebPodTemplateSpec :: "externals \<Rightarrow> iteration \<Rightarrow> Wordpress \<Rightarrow> PodTemplateSpec option" where
  "WebPodTemplateSpec X ord wp = do {
     let out = zeroPodTemplateSpec;
     let out = (case ws_PodMetadata (wp_Spec wp) of
                  None \<Rightarrow> out
                | Some md \<Rightarrow> out\<lparr>pts_ObjectMeta := DeepCopyInto ord md\<rparr>);
     let out = out\<lparr>pts_ObjectMeta := (pts_ObjectMeta out)
                 \<lparr>om_Labels := labels_Merge ord (om_Labels (pts_ObjectMeta out))
                                 (WebPodLabels X wp)\<rparr>\<rparr>;
     let out = out\<lparr>pts_Spec := (pts_Spec out)
                 \<lparr>ps_ImagePullSecrets := ws_ImagePullSecrets (wp_Spec wp)\<rparr>\<rparr>;
     let out = (if length (ws_ServiceAccountName (wp_Spec wp)) > 0
                then out\<lparr>pts_Spec := (pts_Spec out)
                       \<lparr>ps_ServiceAccountName := ws_ServiceAccountName (wp_Spec wp)\<rparr>\<rparr>
                else out);
     inits \<leftarrow> initContainers X wp;
     let out = out\<lparr>pts_Spec := (pts_Spec out)\<lparr>ps_InitContainers := inits\<rparr>\<rparr>;
     mounts \<leftarrow> volumeMounts X wp;
     let wordpressContainer = zeroContainer
       \<lparr>c_Name := ''wordpress'',
        c_Image := ws_Image (wp_Spec wp),
        c_ImagePullPolicy := ws_ImagePullPolicy (wp_Spec wp),
        c_VolumeMounts := mounts,
        c_Env := env X wp,
        c_EnvFrom := envFrom X wp,
        c_Resources := ws_Resources (wp_Spec wp),
        c_Ports := [\<lparr>cp_Name = ''http'', cp_ContainerPort = InternalHTTPPort\<rparr>,
                    \<lparr>cp_Name = ''prometheus'', cp_ContainerPort = MetricsExporterPort\<rparr>],
        c_SecurityContext := Some (securityContext wp),
        c_Lifecycle := Some
          \<lparr>lc_PostStart = Some (zeroHandler\<lparr>h_Exec := Some \<lparr>ea_Command = postStartCommand\<rparr>\<rparr>),
           lc_PreStop = Some (zeroHandler\<lparr>h_Exec := Some \<lparr>ea_Command = preStopCommand\<rparr>\<rparr>)\<rparr>,
        c_ReadinessProbe := Some (readinessProbe X wp),
        c_LivenessProbe := Some (livenessProbe X wp)\<rparr>;
     let out = out\<lparr>pts_Spec := (pts_Spec out)
                 \<lparr>ps_Containers := [wordpressContainer] @ ws_Sidecars (wp_Spec wp)\<rparr>\<rparr>;
     let out = out\<lparr>pts_Spec := (pts_Spec out)\<lparr>ps_Volumes := volumes X wp\<rparr>\<rparr>;
     let out = (if ws_NodeSelector (wp_Spec wp) \<noteq> Map.empty
                then out\<lparr>pts_Spec := (pts_Spec out)
                       \<lparr>ps_NodeSelector := ws_NodeSelector (wp_Spec wp)\<rparr>\<rparr>
                else out);
     let out = (if length (ws_Tolerations (wp_Spec wp)) > 0
                then out\<lparr>pts_Spec := (pts_Spec out)
                       \<lparr>ps_Tolerations := ws_Tolerations (wp_Spec wp)\<rparr>\<rparr>
                else out);
     let out = out\<lparr>pts_Spec := (pts_Spec out)\<lparr>ps_Affinity := ws_Affinity (wp_Spec wp)\<rparr>\<rparr>;
     let out = (if length (ws_PriorityClassName (wp_Spec wp)) > 0
                then out\<lparr>pts_Spec := (pts_Spec out)
                       \<lparr>ps_PriorityClassName := ws_PriorityClassName (wp_Spec wp)\<rparr>\<rparr>
                else out);
     Some out
   }"

definition JobPodTemplateSpec :: "externals \<Rightarrow> iteration \<Rightarrow> Wordpress \<Rightarrow> string list \<Rightarrow> PodTemplateSpec option" where
  "JobPodTemplateSpec X ord wp cmd = do {
     let out = zeroPodTemplateSpec;
     let out = (case ws_PodMetadata (wp_Spec wp) of
                  None \<Rightarrow> out
                | Some md \<Rightarrow> out\<lparr>pts_ObjectMeta := DeepCopyInto ord md\<rparr>);
     let out = out\<lparr>pts_ObjectMeta := (pts_ObjectMeta out)
                 \<lparr>om_Labels := labels_Merge ord (om_Labels (pts_ObjectMeta out))
                                 (JobPodLabels X wp)\<rparr>\<rparr>;
     let out = out\<lparr>pts_Spec := (pts_Spec out)
                 \<lparr>ps_ImagePullSecrets := ws_ImagePullSecrets (wp_Spec wp)\<rparr>\<rparr>;
     let out = (if length (ws_ServiceAccountName (wp_Spec wp)) > 0
                then out\<lparr>pts_Spec := (pts_Spec out)
                       \<lparr>ps_ServiceAccountName := ws_ServiceAccountName (wp_Spec wp)\<rparr>\<rparr>
                else out);
     let out = out\<lparr>pts_Spec := (pts_Spec out)\<lparr>ps_RestartPolicy := ''Never''\<rparr>\<rparr>;
     inits \<leftarrow> initContainers X wp;
     let out = out\<lparr>pts_Spec := (pts_Spec out)\<lparr>ps_InitContainers := inits\<rparr>\<rparr>;
     mounts \<leftarrow> volumeMounts X wp;
     let wordpressContainer = zeroContainer
       \<lparr>c_Name := ''wp-cli'',
        c_Image := ws_Image (wp_Spec wp),
        c_ImagePullPolicy := ws_ImagePullPolicy (wp_Spec wp),
        c_Args := cmd,
        c_VolumeMounts := mounts,
        c_Env := env X wp,
        c_EnvFrom := envFrom X wp,
        c_SecurityContext := Some (securityContext wp)\<rparr>;
     let out = out\<lparr>pts_Spec := (pts_Spec out)
                 \<lparr>ps_Containers := [wordpressContainer] @ ws_Sidecars (wp_Spec wp)\<rparr>\<rparr>;
     let out = out\<lparr>pts_Spec := (pts_Spec out)\<lparr>ps_Volumes := volumes X wp\<rparr>\<rparr>;
     let out = (if ws_NodeSelector (wp_Spec wp) \<noteq> Map.empty
                then out\<lparr>pts_Spec := (pts_Spec out)
                       \<lparr>ps_NodeSelector := ws_NodeSelector (wp_Spec wp)\<rparr>\<rparr>
                else out);
     let out = (if length (ws_Tolerations (wp_Spec wp)) > 0
                then out\<lparr>pts_Spec := (pts_Spec out)
                       \<lparr>ps_Tolerations := ws_Tolerations (wp_Spec wp)\<rparr>\<rparr>
                else out);
     let out = out\<lparr>pts_Spec := (pts_Spec out)\<lparr>ps_Affinity := ws_Affinity (wp_Spec wp)\<rparr>\<rparr>;
     let out = (if length (ws_PriorityClassName (wp_Spec wp)) > 0
                then out\<lparr>pts_Spec := (pts_Spec out)
                       \<lparr>ps_PriorityClassName := ws_PriorityClassName (wp_Spec wp)\<rparr>\<rparr>
                else out);
     let out = out\<lparr>pts_Spec := (pts_Spec out)
                 \<lparr>ps_SecurityContext := Some \<lparr>psc_FSGroup = Some wwwDataUserID\<rparr>\<rparr>\<rparr>;
     Some out
   }"

section \<open>The claims in the words of the specification\<close>

text \<open>
  The definitions of this section are not translations of the source: they name what the
  specification talks about, so that the theorems can compare the code with it.
\<close>

text \<open>
  The credential entries of a backend after remapping, as the specification words it:
  the entries whose name is a key of the table, each renamed to the table's target name.
\<close>

definition remapped :: "(string \<rightharpoonup> string) \<Rightarrow> EnvVar list \<Rightarrow> EnvVar list" where
  "remapped tbl envs =
     map (\<lambda>e. case tbl (ev_Name e) of Some name \<Rightarrow> e\<lparr>ev_Name := name\<rparr> | None \<Rightarrow> e)
       (filter (\<lambda>e. ev_Name e \<in> dom tbl) envs)"

text \<open>The bucket variable: scheme prefix, \<open>://\<close>, and the joined bucket and path prefix.\<close>

definition bucketVar :: "string \<Rightarrow> string \<Rightarrow> string \<Rightarrow> EnvVar" where
  "bucketVar prefix bucket pathPrefix =
     \<lparr>ev_Name = ''STACK_MEDIA_BUCKET'',
      ev_Value = prefix @ ''://'' @ path_Join [bucket, pathPrefix],
      ev_ValueFrom = None\<rparr>"

text \<open>The block of variables of each backend descriptor: empty when the descriptor is unset.\<close>

definition s3Block :: "S3VolumeSource option \<Rightarrow> EnvVar list" where
  "s3Block src =
     (case src of
        None \<Rightarrow> []
      | Some s3 \<Rightarrow> bucketVar s3Prefix (s3_Bucket s3) (s3_PathPrefix s3)
                    # remapped s3EnvVars (s3_Env s3))"

definition gcsBlock :: "GCSVolumeSource option \<Rightarrow> EnvVar list" where
  "gcsBlock src =
     (case src of
        None \<Rightarrow> []
      | Some gcs \<Rightarrow> bucketVar gcsPrefix (gcs_Bucket gcs) (gcs_PathPrefix gcs)
                     # remapped gcsEnvVars (gcs_Env gcs))"

text \<open>The git variant of the code source, when the code source and the variant are set.\<close>

definition gitVariant :: "Wordpress \<Rightarrow> GitVolumeSource option" where
  "gitVariant wp =
     (case ws_CodeVolumeSpec (wp_Spec wp) of None \<Rightarrow> None | Some c \<Rightarrow> cv_GitDir c)"

text \<open>The mount of the log volume, which every mount list starts with.\<close>

definition logMount :: "externals \<Rightarrow> VolumeMount" where
  "logMount X =
     \<lparr>vm_Name = knativeVarLogVolume X, vm_ReadOnly = False,
      vm_MountPath = knativeVarLogMountPath X, vm_SubPath = []\<rparr>"

text \<open>The three views of the code volume: the raw fetch destination, the content
  sub-path at the application path, and the config sub-path at the configuration path.\<close>

definition codeMounts :: "externals \<Rightarrow> CodeVolumeSpec \<Rightarrow> VolumeMount list" where
  "codeMounts X c =
     [\<lparr>vm_Name = codeVolumeName, vm_ReadOnly = cv_ReadOnly c,
       vm_MountPath = codeSrcMountPath X, vm_SubPath = []\<rparr>,
      \<lparr>vm_Name = codeVolumeName, vm_ReadOnly = cv_ReadOnly c,
       vm_MountPath = cv_MountPath c, vm_SubPath = cv_ContentSubPath c\<rparr>,
      \<lparr>vm_Name = codeVolumeName, vm_ReadOnly = True,
       vm_MountPath = configMountPath X, vm_SubPath = cv_ConfigSubPath c\<rparr>]"

text \<open>The mount of the media volume.\<close>

definition mediaMount :: "MediaVolumeSpec \<Rightarrow> VolumeMount" where
  "mediaMount m =
     \<lparr>vm_Name = mediaVolumeName, vm_ReadOnly = mv_ReadOnly m,
      vm_MountPath = mv_MountPath m, vm_SubPath = mv_ContentSubPath m\<rparr>"

text \<open>The code mounts of an intent: the three views when code mounts are present, none otherwise.\<close>

definition codeMountsOf :: "externals \<Rightarrow> Wordpress \<Rightarrow> VolumeMount list" where
  "codeMountsOf X wp =
     (case ws_CodeVolumeSpec (wp_Spec wp) of
        None \<Rightarrow> []
      | Some c \<Rightarrow> if hasCodeMounts wp then codeMounts X c else [])"

text \<open>The media mounts of an intent: one when media mounts are present, none otherwise.\<close>

definition mediaMountsOf :: "Wordpress \<Rightarrow> VolumeMount list" where
  "mediaMountsOf wp =
     (case ws_MediaVolumeSpec (wp_Spec wp) of
        None \<Rightarrow> []
      | Some m \<Rightarrow> if hasMediaMounts wp then [mediaMount m] else [])"

text \<open>The two auxiliary volumes: the internal scratch volume and the size-capped log volume.\<close>

definition auxVolumes :: "externals \<Rightarrow> Volume list" where
  "auxVolumes X =
     [\<lparr>v_Name = knativeInternalVolume X,
       v_VolumeSource = \<lparr>vs_HostPath = None,
                         vs_EmptyDir = Some \<lparr>ed_Medium = [], ed_SizeLimit = None\<rparr>,
                         vs_PersistentVolumeClaim = None\<rparr>\<rparr>,
      \<lparr>v_Name = knativeVarLogVolume X,
       v_VolumeSource = \<lparr>vs_HostPath = None,
                         vs_EmptyDir = Some \<lparr>ed_Medium = [],
                                             ed_SizeLimit = Some (varLogSizeLimit X)\<rparr>,
                         vs_PersistentVolumeClaim = None\<rparr>\<rparr>]"

text \<open>The main process of a resolved workload: the first container, before the sidecars.\<close>

definition mainContainer :: "PodTemplateSpec \<Rightarrow> Container" where
  "mainContainer out = hd (ps_Containers (pts_Spec out))"

text \<open>The iteration order of a run is one Go can produce on the maps the assemblers range
  over: each is visited entry by entry, every entry once.\<close>

definition validIteration :: "externals \<Rightarrow> Wordpress \<Rightarrow> iteration \<Rightarrow> bool" where
  "validIteration X wp ord =
     (enumerates (ord Map.empty) Map.empty
      \<and> enumerates (ord (WebPodLabels X wp)) (WebPodLabels X wp)
      \<and> enumerates (ord (JobPodLabels X wp)) (JobPodLabels X wp)
      \<and> (case ws_PodMetadata (wp_Spec wp) of
            None \<Rightarrow> True
          | Some md \<Rightarrow> enumerates (ord (om_Labels md)) (om_Labels md)
                       \<and> enumerates (ord (om_Annotations md)) (om_Annotations md)))"

text \<open>The metadata of the result: the caller's, with the computed labels merged over its labels.\<close>

definition mergedMeta :: "ObjectMeta option \<Rightarrow> (string \<rightharpoonup> string) \<Rightarrow> ObjectMeta" where
  "mergedMeta podMetadata podLabels =
     (case podMetadata of
        None \<Rightarrow> \<lparr>om_Labels = podLabels, om_Annotations = Map.empty\<rparr>
      | Some md \<Rightarrow> md\<lparr>om_Labels := om_Labels md ++ podLabels\<rparr>)"

text \<open>
  The \<open>domain/path\<close> string of a route: its domain and its path, joined by a slash the
  way \<open>path.Join\<close> joins them.
\<close>

definition routeString :: "RouteSpec \<Rightarrow> string" where
  "routeString r = path_Join [r_Domain r, r_Path r]"

text \<open>An intent sets no code-source variant: the code source is unset, or none of its four variants is set.\<close>

definition noCodeVariant :: "Wordpress \<Rightarrow> bool" where
  "noCodeVariant wp =
     (case ws_CodeVolumeSpec (wp_Spec wp) of
        None \<Rightarrow> True
      | Some c \<Rightarrow> cv_GitDir c = None \<and> cv_PersistentVolumeClaim c = None
                  \<and> cv_HostPath c = None \<and> cv_EmptyDir c = None)"

text \<open>How many of the sources of a volume are set.\<close>

definition sourcesSet :: "VolumeSource \<Rightarrow> nat" where
  "sourcesSet vs =
     (if vs_HostPath vs \<noteq> None then 1 else 0)
     + (if vs_EmptyDir vs \<noteq> None then 1 else 0)
     + (if vs_PersistentVolumeClaim vs \<noteq> None then 1 else 0)"

section \<open>Sample inputs\<close>

text \<open>
  Concrete values for the parameters and concrete intents, at which the theorems are
  evaluated. No theorem about all intents depends on them.
\<close>

definition exampleExternals :: externals where
  "exampleExternals =
     \<lparr>MainDomain = (\<lambda>wp. wp_Name wp @ ''.'' @ wp_Namespace wp @ ''.svc''),
      HomeURL = (\<lambda>wp. ''http://'' @ wp_Name wp @ ''.'' @ wp_Namespace wp @ ''.svc''),
      SiteURL = (\<lambda>wp. ''http://'' @ wp_Name wp @ ''.'' @ wp_Namespace wp @ ''.svc/wp''),
      ComponentName = (\<lambda>wp c. wp_Name wp @
         (case c of WordpressSecret \<Rightarrow> ''-wp'' | WordpressCodePVC \<Rightarrow> ''-code''
          | WordpressMediaPVC \<Rightarrow> ''-media'')),
      WebPodLabels = (\<lambda>wp. [''app'' \<mapsto> ''wordpress'', ''site'' \<mapsto> wp_Name wp]),
      JobPodLabels = (\<lambda>wp. [''app'' \<mapsto> ''wp-cli'', ''site'' \<mapsto> wp_Name wp]),
      codeSrcMountPath = ''/var/run/code/src'',
      configMountPath = ''/app/config'',
      knativeVarLogMountPath = ''/var/log'',
      knativeVarLogVolume = ''knative-var-log'',
      knativeInternalMountPath = ''/var/knative-internal'',
      knativeInternalVolume = ''knative-internal'',
      varLogSizeLimit = ''1Gi'',
      GitCloneImage = ''git-clone-image''\<rparr>"

definition exampleSpec :: WordpressSpec where
  "exampleSpec =
     \<lparr>ws_Image = ''wordpress-runtime'', ws_ImagePullPolicy = [], ws_ImagePullSecrets = [],
      ws_ServiceAccountName = [], ws_Routes = [], ws_WordpressPathPrefix = ''wp'',
      ws_CodeVolumeSpec = None, ws_MediaVolumeSpec = None, ws_WordpressBootstrapSpec = None,
      ws_Env = [], ws_EnvFrom = [], ws_Volumes = [], ws_VolumeMounts = [],
      ws_InitContainers = [], ws_Sidecars = [],
      ws_Resources = \<lparr>rr_Limits = Map.empty, rr_Requests = Map.empty\<rparr>,
      ws_ReadinessProbe = None, ws_LivenessProbe = None, ws_NodeSelector = Map.empty,
      ws_Tolerations = [], ws_Affinity = None, ws_PriorityClassName = [],
      ws_PodMetadata = None\<rparr>"

definition exampleSite :: "WordpressSpec \<Rightarrow> Wordpress" where
  "exampleSite spec = \<lparr>wp_Name = ''blog'', wp_Namespace = ''prod'', wp_Spec = spec\<rparr>"

definition exampleMedia :: MediaVolumeSpec where
  "exampleMedia =
     \<lparr>mv_ReadOnly = False, mv_MountPath = ''/app/web/wp-content/uploads'',
      mv_ContentSubPath = [], mv_S3VolumeSource = None, mv_GCSVolumeSource = None,
      mv_PersistentVolumeClaim = None, mv_HostPath = None, mv_EmptyDir = None\<rparr>"

definition exampleCode :: CodeVolumeSpec where
  "exampleCode =
     \<lparr>cv_ReadOnly = False, cv_MountPath = ''/app/web/wp-content'',
      cv_ContentSubPath = ''wp-content'', cv_ConfigSubPath = ''config'',
      cv_GitDir = None, cv_PersistentVolumeClaim = None, cv_HostPath = None,
      cv_EmptyDir = None\<rparr>"

definition exampleIteration :: iteration where
  "exampleIteration m = (if m = Map.empty then [] else [(''app'', the (m ''app'')), (''site'', the (m ''site''))])"

text \<open>An intent whose user-supplied environment reuses the name of a built-in variable.\<close>

definition intentDuplicateEnv :: Wordpress where
  "intentDuplicateEnv =
     exampleSite (exampleSpec
       \<lparr>ws_Env := [\<lparr>ev_Name = ''WP_HOME'', ev_Value = ''http://other'', ev_ValueFrom = None\<rparr>],
        ws_MediaVolumeSpec := Some (exampleMedia
          \<lparr>mv_S3VolumeSource := Some \<lparr>s3_Bucket = ''b'', s3_PathPrefix = ''p'', s3_Env = []\<rparr>\<rparr>)\<rparr>)"

text \<open>An intent with two explicit routes.\<close>

definition intentTwoRoutes :: Wordpress where
  "intentTwoRoutes =
     exampleSite (exampleSpec
       \<lparr>ws_Routes := [\<lparr>r_Domain = ''example.com'', r_Path = ''blog''\<rparr>,
                       \<lparr>r_Domain = ''example.org'', r_Path = ''shop''\<rparr>]\<rparr>)"
text \<open>An intent whose caller set the readiness probe and left the liveness probe unset.\<close>

definition exampleProbe :: Probe where
  "exampleProbe =
     \<lparr>p_Handler = \<lparr>h_Exec = Some \<lparr>ea_Command = [''true'']\<rparr>, h_HTTPGet = None,
                    h_TCPSocket = None\<rparr>,
      p_InitialDelaySeconds = 1, p_TimeoutSeconds = 2, p_PeriodSeconds = 3,
      p_SuccessThreshold = 4, p_FailureThreshold = 5\<rparr>"

definition intentOwnReadiness :: Wordpress where
  "intentOwnReadiness = exampleSite (exampleSpec\<lparr>ws_ReadinessProbe := Some exampleProbe\<rparr>)"

text \<open>An intent with both backend descriptors set, and no mount source.\<close>

definition intentBothBackends :: Wordpress where
  "intentBothBackends =
     exampleSite (exampleSpec
       \<lparr>ws_MediaVolumeSpec := Some (exampleMedia
          \<lparr>mv_S3VolumeSource := Some
             \<lparr>s3_Bucket = ''b'', s3_PathPrefix = ''p'',
              s3_Env = [\<lparr>ev_Name = ''AWS_ACCESS_KEY_ID'', ev_Value = ''k'', ev_ValueFrom = None\<rparr>,
                        \<lparr>ev_Name = ''DEBUG'', ev_Value = ''1'', ev_ValueFrom = None\<rparr>,
                        \<lparr>ev_Name = ''ENDPOINT'', ev_Value = ''http://minio'',
                          ev_ValueFrom = None\<rparr>]\<rparr>,
           mv_GCSVolumeSource := Some
             \<lparr>gcs_Bucket = ''g'', gcs_PathPrefix = ''q'',
              gcs_Env = [\<lparr>ev_Name = ''GOOGLE_CREDENTIALS'', ev_Value = ''c'',
                           ev_ValueFrom = None\<rparr>]\<rparr>\<rparr>)\<rparr>)"

text \<open>An intent with the S3 descriptor as its whole media source.\<close>

definition intentS3Only :: Wordpress where
  "intentS3Only =
     exampleSite (exampleSpec
       \<lparr>ws_MediaVolumeSpec := Some (exampleMedia
          \<lparr>mv_S3VolumeSource := Some \<lparr>s3_Bucket = ''b'', s3_PathPrefix = ''p'', s3_Env = []\<rparr>\<rparr>)\<rparr>)"

text \<open>An intent with three code-source variants set at once.\<close>

definition intentThreeVariants :: Wordpress where
  "intentThreeVariants =
     exampleSite (exampleSpec
       \<lparr>ws_CodeVolumeSpec := Some (exampleCode
          \<lparr>cv_GitDir := Some \<lparr>git_Repository = ''https://example/repo.git'', git_GitRef = ''main'',
                               git_Env = [], git_EnvFrom = [], git_EmptyDir = None\<rparr>,
           cv_PersistentVolumeClaim := Some \<lparr>pvc_StorageClassName = None, pvc_Storage = ''1Gi''\<rparr>,
           cv_HostPath := Some \<lparr>hp_Path = ''/srv/code'', hp_Type = None\<rparr>\<rparr>)\<rparr>)"

text \<open>An intent with a code source that sets no variant.\<close>

definition intentNoVariant :: Wordpress where
  "intentNoVariant = exampleSite (exampleSpec\<lparr>ws_CodeVolumeSpec := Some exampleCode\<rparr>)"

text \<open>An intent with the git variant and a user-supplied mount of the code volume.\<close>

definition intentUserCodeMount :: Wordpress where
  "intentUserCodeMount =
     exampleSite (exampleSpec
       \<lparr>ws_CodeVolumeSpec := Some (exampleCode
          \<lparr>cv_GitDir := Some \<lparr>git_Repository = ''https://example/repo.git'', git_GitRef = ''main'',
                               git_Env = [], git_EnvFrom = [], git_EmptyDir = None\<rparr>\<rparr>),
        ws_VolumeMounts := [\<lparr>vm_Name = ''code'', vm_ReadOnly = True,
                             vm_MountPath = ''/app/vendor'', vm_SubPath = ''vendor''\<rparr>]\<rparr>)"

text \<open>
  An intent with the git variant, an S3 descriptor, a bootstrap spec and one user-supplied
  init step.
\<close>

definition intentFullInit :: Wordpress where
  "intentFullInit =
     exampleSite (exampleSpec
       \<lparr>ws_CodeVolumeSpec := Some (exampleCode
          \<lparr>cv_GitDir := Some \<lparr>git_Repository = ''https://example/repo.git'', git_GitRef = ''main'',
                               git_Env = [], git_EnvFrom = [], git_EmptyDir = None\<rparr>\<rparr>),
        ws_MediaVolumeSpec := Some (exampleMedia
          \<lparr>mv_S3VolumeSource := Some \<lparr>s3_Bucket = ''b'', s3_PathPrefix = ''p'', s3_Env = []\<rparr>\<rparr>),
        ws_WordpressBootstrapSpec := Some \<lparr>wb_Env = [], wb_EnvFrom = []\<rparr>,
        ws_InitContainers := [zeroContainer\<lparr>c_Name := ''user-step''\<rparr>]\<rparr>)"

text \<open>A second iteration order, which visits the two labels the other way round.\<close>

definition exampleIteration' :: iteration where
  "exampleIteration' m =
     (if m = Map.empty then [] else [(''site'', the (m ''site'')), (''app'', the (m ''app''))])"

text \<open>An intent with pod metadata of its own.\<close>

definition intentPodMetadata :: Wordpress where
  "intentPodMetadata =
     exampleSite (exampleSpec
       \<lparr>ws_PodMetadata := Some \<lparr>om_Labels = [''app'' \<mapsto> ''mine'', ''site'' \<mapsto> ''other''],
                                 om_Annotations = Map.empty\<rparr>\<rparr>)"

section \<open>Properties\<close>

subsection \<open>The environment composer\<close>

lemma mediaEnv_loop_remapped: "mediaEnv_loop tbl out envs = out @ remapped tbl envs"
  by (induction envs arbitrary: out) (auto simp: remapped_def split: option.splits)

lemma mediaEnv_Some:
  "ws_MediaVolumeSpec (wp_Spec wp) = Some m \<Longrightarrow>
   mediaEnv wp = s3Block (mv_S3VolumeSource m) @ gcsBlock (mv_GCSVolumeSource m)"
  by (simp add: mediaEnv_def s3Block_def gcsBlock_def bucketVar_def mediaEnv_loop_remapped
      split: option.splits)

lemma mediaEnv_None: "ws_MediaVolumeSpec (wp_Spec wp) = None \<Longrightarrow> mediaEnv wp = []"
  by (simp add: mediaEnv_def)

lemma dom_s3EnvVars:
  "dom s3EnvVars =
     {''AWS_ACCESS_KEY_ID'', ''AWS_SECRET_ACCESS_KEY'', ''AWS_CONFIG_FILE'', ''ENDPOINT''}"
  unfolding s3EnvVars_def dom_map_of_conv_image_fst by (simp add: insert_commute)

lemma dom_gcsEnvVars:
  "dom gcsEnvVars = {''GOOGLE_CREDENTIALS'', ''GOOGLE_APPLICATION_CREDENTIALS''}"
  unfolding gcsEnvVars_def dom_map_of_conv_image_fst by (simp add: insert_commute)

lemma env_closed:
  "env X wp =
     [\<lparr>ev_Name = ''WP_HOME'', ev_Value = HomeURL X wp, ev_ValueFrom = None\<rparr>,
      \<lparr>ev_Name = ''WP_SITEURL'', ev_Value = SiteURL X wp, ev_ValueFrom = None\<rparr>,
      \<lparr>ev_Name = ''WP_CORE_DIRECTORY'',
       ev_Value = ws_WordpressPathPrefix (wp_Spec wp), ev_ValueFrom = None\<rparr>,
      \<lparr>ev_Name = ''STACK_ROUTES'',
       ev_Value = strings_Join (routes X wp) '','', ev_ValueFrom = None\<rparr>,
      \<lparr>ev_Name = ''STACK_SITE_NAME'', ev_Value = wp_Name wp, ev_ValueFrom = None\<rparr>,
      \<lparr>ev_Name = ''STACK_SITE_NAMESPACE'', ev_Value = wp_Namespace wp, ev_ValueFrom = None\<rparr>]
     @ ws_Env (wp_Spec wp) @ mediaEnv wp"
  by (simp add: env_def Let_def)

subsection \<open>The source resolver, the mounts and the volumes\<close>

lemma hasCodeMounts_None: "ws_CodeVolumeSpec (wp_Spec wp) = None \<Longrightarrow> \<not> hasCodeMounts wp"
  by (simp add: hasCodeMounts_def)

lemma hasMediaMounts_None: "ws_MediaVolumeSpec (wp_Spec wp) = None \<Longrightarrow> \<not> hasMediaMounts wp"
  by (simp add: hasMediaMounts_def)

lemma hasCodeMounts_Some:
  "ws_CodeVolumeSpec (wp_Spec wp) = Some c \<Longrightarrow>
   hasCodeMounts wp \<longleftrightarrow>
     (cv_GitDir c \<noteq> None \<or> cv_PersistentVolumeClaim c \<noteq> None \<or> cv_HostPath c \<noteq> None
      \<or> cv_EmptyDir c \<noteq> None)"
  by (simp add: hasCodeMounts_def)

lemma hasMediaMounts_Some:
  "ws_MediaVolumeSpec (wp_Spec wp) = Some m \<Longrightarrow>
   hasMediaMounts wp \<longleftrightarrow>
     (mv_PersistentVolumeClaim m \<noteq> None \<or> mv_HostPath m \<noteq> None \<or> mv_EmptyDir m \<noteq> None)"
  by (simp add: hasMediaMounts_def)

lemma volumeMounts_closed:
  "volumeMounts X wp =
     Some ([logMount X] @ ws_VolumeMounts (wp_Spec wp) @ codeMountsOf X wp @ mediaMountsOf wp)"
proof (cases "ws_CodeVolumeSpec (wp_Spec wp)")
  case None
  note c = None hasCodeMounts_None [OF None]
  show ?thesis
  proof (cases "ws_MediaVolumeSpec (wp_Spec wp)")
    case None
    with c hasMediaMounts_None [OF None] show ?thesis
      by (simp add: Let_def volumeMounts_def codeMountsOf_def mediaMountsOf_def logMount_def
          zeroVolumeMount_def)
  next
    case (Some m)
    with c show ?thesis
      by (simp add: Let_def volumeMounts_def codeMountsOf_def mediaMountsOf_def logMount_def
          mediaMount_def zeroVolumeMount_def)
  qed
next
  case (Some c)
  note c = Some
  show ?thesis
  proof (cases "ws_MediaVolumeSpec (wp_Spec wp)")
    case None
    with c hasMediaMounts_None [OF None] show ?thesis
      by (simp add: Let_def volumeMounts_def codeMountsOf_def mediaMountsOf_def logMount_def
          codeMounts_def zeroVolumeMount_def)
  next
    case (Some m)
    with c show ?thesis
      by (simp add: Let_def volumeMounts_def codeMountsOf_def mediaMountsOf_def logMount_def
          codeMounts_def mediaMount_def zeroVolumeMount_def)
  qed
qed

lemma volumes_closed:
  "volumes X wp =
     auxVolumes X @ ws_Volumes (wp_Spec wp)
     @ (if hasCodeMounts wp then [codeVolume X wp] else [])
     @ (if hasMediaMounts wp then [mediaVolume X wp] else [])"
  by (simp add: volumes_def Let_def auxVolumes_def zeroVolumeSource_def zeroEmptyDir_def)

lemma prepareVolumesContainer_Some:
  "\<exists>c. prepareVolumesContainer X wp = Some c \<and> c_Name c = ''prepare-volumes''"
proof -
  have code: "ws_CodeVolumeSpec (wp_Spec wp) = None \<Longrightarrow> \<not> hasCodeMounts wp"
    by (rule hasCodeMounts_None)
  have media: "ws_MediaVolumeSpec (wp_Spec wp) = None \<Longrightarrow> \<not> hasMediaMounts wp"
    by (rule hasMediaMounts_None)
  show ?thesis
    using code media
    by (cases "ws_CodeVolumeSpec (wp_Spec wp)"; cases "ws_MediaVolumeSpec (wp_Spec wp)")
       (simp_all add: prepareVolumesContainer_def Let_def zeroContainer_def)
qed

lemma gitCloneContainer_Some:
  "gitVariant wp = Some g \<Longrightarrow>
   \<exists>c. gitCloneContainer X wp = Some c \<and> c_Name c = ''git'' \<and> c_EnvFrom c = git_EnvFrom g"
  by (cases "ws_CodeVolumeSpec (wp_Spec wp)")
     (simp_all add: gitVariant_def gitCloneContainer_def gitCloneEnv_def Let_def zeroContainer_def)

lemma installWPContainer_Some:
  "\<exists>cs. installWPContainer X wp = Some cs
     \<and> map c_Name cs =
         (case ws_WordpressBootstrapSpec (wp_Spec wp) of None \<Rightarrow> [] | Some b \<Rightarrow> [''install-wp''])"
  by (cases "ws_WordpressBootstrapSpec (wp_Spec wp)")
     (simp_all add: installWPContainer_def volumeMounts_closed zeroContainer_def)

lemma gitVariant_hasCodeMounts: "gitVariant wp = Some g \<Longrightarrow> hasCodeMounts wp"
  by (cases "ws_CodeVolumeSpec (wp_Spec wp)") (simp_all add: gitVariant_def hasCodeMounts_def)

lemma initContainers_closed:
  assumes "prepareVolumesContainer X wp = Some prep"
      and "installWPContainer X wp = Some install"
  shows "initContainers X wp =
     (case gitVariant wp of
        None \<Rightarrow>
          Some ((if hasMediaMounts wp \<or> hasCodeMounts wp then [prep] else [])
                @ ws_InitContainers (wp_Spec wp) @ install)
      | Some g \<Rightarrow>
          map_option (\<lambda>git. (if hasMediaMounts wp \<or> hasCodeMounts wp then [prep] else [])
                @ ws_InitContainers (wp_Spec wp) @ [git] @ install) (gitCloneContainer X wp))"
proof (cases "gitVariant wp")
  case None
  then have "\<not> (case ws_CodeVolumeSpec (wp_Spec wp) of None \<Rightarrow> False
                 | Some c \<Rightarrow> cv_GitDir c \<noteq> None)"
    by (simp add: gitVariant_def split: option.splits)
  with None assms show ?thesis
    by (simp add: initContainers_def Let_def)
next
  case (Some g)
  then have "(case ws_CodeVolumeSpec (wp_Spec wp) of None \<Rightarrow> False
                 | Some c \<Rightarrow> cv_GitDir c \<noteq> None)"
    by (simp add: gitVariant_def split: option.splits)
  moreover obtain git where "gitCloneContainer X wp = Some git"
    using gitCloneContainer_Some [OF Some] by blast
  ultimately show ?thesis
    using Some assms by (simp add: initContainers_def Let_def)
qed

lemma initContainers_Some: "\<exists>cs. initContainers X wp = Some cs"
proof -
  obtain prep where p: "prepareVolumesContainer X wp = Some prep"
    using prepareVolumesContainer_Some by blast
  obtain install where i: "installWPContainer X wp = Some install"
    using installWPContainer_Some by blast
  show ?thesis
  proof (cases "gitVariant wp")
    case None
    then show ?thesis using initContainers_closed [OF p i] by simp
  next
    case (Some g)
    then obtain git where "gitCloneContainer X wp = Some git"
      using gitCloneContainer_Some by blast
    with Some show ?thesis using initContainers_closed [OF p i] by simp
  qed
qed

lemma range_copy_distinct:
  "distinct (map fst kvs) \<Longrightarrow> range_copy kvs m0 = m0 ++ map_of kvs"
proof (induction kvs arbitrary: m0)
  case Nil
  then show ?case by (simp add: range_copy_def)
next
  case (Cons kv kvs)
  obtain k v where kv: "kv = (k, v)" by (cases kv)
  from Cons.prems kv have k: "k \<notin> dom (map_of kvs)" and d: "distinct (map fst kvs)"
    by (auto simp: dom_map_of_conv_image_fst)
  have "range_copy (kv # kvs) m0 = range_copy kvs (m0(k \<mapsto> v))"
    by (simp add: range_copy_def kv)
  also have "\<dots> = m0(k \<mapsto> v) ++ map_of kvs"
    by (rule Cons.IH [OF d])
  also have "\<dots> = (m0 ++ map_of kvs)(k \<mapsto> v)"
    using k by (rule map_add_upd_left)
  also have "\<dots> = m0 ++ map_of (kv # kvs)"
    by (simp add: kv)
  finally show ?case .
qed

lemma range_copy_enumerates: "enumerates kvs m \<Longrightarrow> range_copy kvs m0 = m0 ++ m"
  by (auto simp: enumerates_def range_copy_distinct)

lemma labels_Merge_enumerates:
  "enumerates (ord labels1) labels1 \<Longrightarrow> enumerates (ord labels2) labels2 \<Longrightarrow>
   labels_Merge ord labels1 labels2 = labels1 ++ labels2"
  by (simp add: labels_Merge_def Let_def range_copy_enumerates)

lemma DeepCopyInto_enumerates:
  "enumerates (ord (om_Labels md)) (om_Labels md) \<Longrightarrow>
   enumerates (ord (om_Annotations md)) (om_Annotations md) \<Longrightarrow>
   DeepCopyInto ord md = md"
  by (simp add: DeepCopyInto_def range_copy_enumerates)

lemma meta_indep:
  assumes "validIteration X wp ord" and "l = WebPodLabels X wp \<or> l = JobPodLabels X wp"
  shows "(case ws_PodMetadata (wp_Spec wp) of
            None \<Rightarrow> zeroPodTemplateSpec
          | Some md \<Rightarrow> zeroPodTemplateSpec\<lparr>pts_ObjectMeta := DeepCopyInto ord md\<rparr>)
         \<lparr>pts_ObjectMeta :=
            (pts_ObjectMeta (case ws_PodMetadata (wp_Spec wp) of
               None \<Rightarrow> zeroPodTemplateSpec
             | Some md \<Rightarrow> zeroPodTemplateSpec\<lparr>pts_ObjectMeta := DeepCopyInto ord md\<rparr>))
            \<lparr>om_Labels := labels_Merge ord
               (om_Labels (pts_ObjectMeta (case ws_PodMetadata (wp_Spec wp) of
                  None \<Rightarrow> zeroPodTemplateSpec
                | Some md \<Rightarrow> zeroPodTemplateSpec\<lparr>pts_ObjectMeta := DeepCopyInto ord md\<rparr>))) l\<rparr>\<rparr>
       = zeroPodTemplateSpec\<lparr>pts_ObjectMeta := mergedMeta (ws_PodMetadata (wp_Spec wp)) l\<rparr>"
proof (cases "ws_PodMetadata (wp_Spec wp)")
  case None
  with assms have "labels_Merge ord Map.empty l = Map.empty ++ l"
    by (intro labels_Merge_enumerates) (auto simp: validIteration_def)
  with None show ?thesis
    by (simp add: mergedMeta_def zeroPodTemplateSpec_def)
next
  case (Some md)
  with assms have c: "DeepCopyInto ord md = md"
    by (intro DeepCopyInto_enumerates) (auto simp: validIteration_def)
  from Some assms have "labels_Merge ord (om_Labels md) l = om_Labels md ++ l"
    by (intro labels_Merge_enumerates) (auto simp: validIteration_def)
  with Some c show ?thesis
    by (simp add: mergedMeta_def zeroPodTemplateSpec_def)
qed

lemma Web_indep:
  assumes "validIteration X wp ord" and "validIteration X wp ord'"
  shows "WebPodTemplateSpec X ord wp = WebPodTemplateSpec X ord' wp"
  unfolding WebPodTemplateSpec_def Let_def
  by (simp only: meta_indep [OF assms(1)] meta_indep [OF assms(2)] simp_thms)

lemma Job_indep:
  assumes "validIteration X wp ord" and "validIteration X wp ord'"
  shows "JobPodTemplateSpec X ord wp cmd = JobPodTemplateSpec X ord' wp cmd"
  unfolding JobPodTemplateSpec_def Let_def
  by (simp only: meta_indep [OF assms(1)] meta_indep [OF assms(2)] simp_thms)

lemma Web_parts:
  "\<exists>out. WebPodTemplateSpec X ord wp = Some out
     \<and> c_Name (mainContainer out) = ''wordpress''
     \<and> ps_Containers (pts_Spec out) = mainContainer out # ws_Sidecars (wp_Spec wp)
     \<and> c_Env (mainContainer out) = env X wp
     \<and> Some (c_VolumeMounts (mainContainer out)) = volumeMounts X wp
     \<and> c_ReadinessProbe (mainContainer out) = Some (readinessProbe X wp)
     \<and> c_LivenessProbe (mainContainer out) = Some (livenessProbe X wp)
     \<and> ps_Volumes (pts_Spec out) = volumes X wp
     \<and> Some (ps_InitContainers (pts_Spec out)) = initContainers X wp"
proof -
  obtain inits where i: "initContainers X wp = Some inits"
    using initContainers_Some by blast
  show ?thesis
    unfolding WebPodTemplateSpec_def Let_def
    by (simp add: i volumeMounts_closed mainContainer_def zeroContainer_def
        zeroPodTemplateSpec_def)
qed

lemma Job_parts:
  "\<exists>out. JobPodTemplateSpec X ord wp cmd = Some out
     \<and> c_Name (mainContainer out) = ''wp-cli''
     \<and> c_Args (mainContainer out) = cmd
     \<and> ps_Containers (pts_Spec out) = mainContainer out # ws_Sidecars (wp_Spec wp)
     \<and> c_Env (mainContainer out) = env X wp
     \<and> Some (c_VolumeMounts (mainContainer out)) = volumeMounts X wp
     \<and> ps_Volumes (pts_Spec out) = volumes X wp
     \<and> Some (ps_InitContainers (pts_Spec out)) = initContainers X wp"
proof -
  obtain inits where i: "initContainers X wp = Some inits"
    using initContainers_Some by blast
  show ?thesis
    unfolding JobPodTemplateSpec_def Let_def
    by (simp add: i volumeMounts_closed mainContainer_def zeroContainer_def
        zeroPodTemplateSpec_def)
qed

subsection \<open>The claims\<close>

text \<open>
  Claim C3. For every intent, the environment of the main process begins with exactly the
  six built-in variables, in the order home URL, site URL, core-directory path,
  comma-joined route list, site name, site namespace; then come the user-supplied entries
  in their given order, then the media-derived variables. Nothing is deduplicated: when a
  user entry has the name of a built-in, the name occurs twice in the list, the built-in
  first. Both assemblers give the main process this environment.
\<close>

theorem env_order:
  "take 6 (env X wp) =
     [\<lparr>ev_Name = ''WP_HOME'', ev_Value = HomeURL X wp, ev_ValueFrom = None\<rparr>,
      \<lparr>ev_Name = ''WP_SITEURL'', ev_Value = SiteURL X wp, ev_ValueFrom = None\<rparr>,
      \<lparr>ev_Name = ''WP_CORE_DIRECTORY'',
       ev_Value = ws_WordpressPathPrefix (wp_Spec wp), ev_ValueFrom = None\<rparr>,
      \<lparr>ev_Name = ''STACK_ROUTES'',
       ev_Value = strings_Join (routes X wp) '','', ev_ValueFrom = None\<rparr>,
      \<lparr>ev_Name = ''STACK_SITE_NAME'', ev_Value = wp_Name wp, ev_ValueFrom = None\<rparr>,
      \<lparr>ev_Name = ''STACK_SITE_NAMESPACE'', ev_Value = wp_Namespace wp, ev_ValueFrom = None\<rparr>]
   \<and> drop 6 (env X wp) = ws_Env (wp_Spec wp) @ mediaEnv wp
   \<and> (\<forall>e \<in> set (ws_Env (wp_Spec wp)).
         ev_Name e \<in> set (map ev_Name (take 6 (env X wp))) \<longrightarrow>
         \<not> distinct (map ev_Name (env X wp)))
   \<and> (\<exists>out. WebPodTemplateSpec X ord wp = Some out \<and> c_Env (mainContainer out) = env X wp)
   \<and> (\<exists>out. JobPodTemplateSpec X ord wp cmd = Some out \<and> c_Env (mainContainer out) = env X wp)"
proof -
  let ?six = "take 6 (env X wp)"
  have t: "?six =
     [\<lparr>ev_Name = ''WP_HOME'', ev_Value = HomeURL X wp, ev_ValueFrom = None\<rparr>,
      \<lparr>ev_Name = ''WP_SITEURL'', ev_Value = SiteURL X wp, ev_ValueFrom = None\<rparr>,
      \<lparr>ev_Name = ''WP_CORE_DIRECTORY'',
       ev_Value = ws_WordpressPathPrefix (wp_Spec wp), ev_ValueFrom = None\<rparr>,
      \<lparr>ev_Name = ''STACK_ROUTES'',
       ev_Value = strings_Join (routes X wp) '','', ev_ValueFrom = None\<rparr>,
      \<lparr>ev_Name = ''STACK_SITE_NAME'', ev_Value = wp_Name wp, ev_ValueFrom = None\<rparr>,
      \<lparr>ev_Name = ''STACK_SITE_NAMESPACE'', ev_Value = wp_Namespace wp, ev_ValueFrom = None\<rparr>]"
    by (simp add: env_closed)
  have d: "drop 6 (env X wp) = ws_Env (wp_Spec wp) @ mediaEnv wp"
    by (simp add: env_closed)
  have e: "env X wp = ?six @ ws_Env (wp_Spec wp) @ mediaEnv wp"
    using d append_take_drop_id [of 6 "env X wp"] by simp
  have dup: "\<not> distinct (map ev_Name (env X wp))"
    if "e \<in> set (ws_Env (wp_Spec wp))" "ev_Name e \<in> set (map ev_Name ?six)" for e
  proof -
    from that(1) have "ev_Name e \<in> set (map ev_Name (ws_Env (wp_Spec wp) @ mediaEnv wp))"
      by auto
    with that(2) have "set (map ev_Name ?six)
        \<inter> set (map ev_Name (ws_Env (wp_Spec wp) @ mediaEnv wp)) \<noteq> {}"
      by blast
    then have nd: "\<not> distinct (map ev_Name ?six @ map ev_Name (ws_Env (wp_Spec wp) @ mediaEnv wp))"
      by (simp only: distinct_append) blast
    have eq: "map ev_Name (env X wp)
        = map ev_Name ?six @ map ev_Name (ws_Env (wp_Spec wp) @ mediaEnv wp)"
      by (subst (1) e) (simp only: map_append)
    show ?thesis by (subst eq) (rule nd)
  qed
  from Web_parts [of X ord wp] Job_parts [of X ord wp cmd] t d dup show ?thesis
    by blast
qed

theorem env_order_witness:
  "ev_Name (hd (ws_Env (wp_Spec intentDuplicateEnv))) = ''WP_HOME''
   \<and> map ev_Name (env exampleExternals intentDuplicateEnv) =
       [''WP_HOME'', ''WP_SITEURL'', ''WP_CORE_DIRECTORY'', ''STACK_ROUTES'', ''STACK_SITE_NAME'',
        ''STACK_SITE_NAMESPACE'', ''WP_HOME'', ''STACK_MEDIA_BUCKET'']
   \<and> \<not> distinct (map ev_Name (env exampleExternals intentDuplicateEnv))"
proof -
  let ?e = "\<lparr>ev_Name = ''WP_HOME'', ev_Value = ''http://other'', ev_ValueFrom = None\<rparr>"
  have u: "ws_Env (wp_Spec intentDuplicateEnv) = [?e]"
    by (simp add: intentDuplicateEnv_def exampleSite_def exampleSpec_def)
  have m: "mediaEnv intentDuplicateEnv = [bucketVar s3Prefix ''b'' ''p'']"
    by (simp add: mediaEnv_Some [of _ "exampleMedia
          \<lparr>mv_S3VolumeSource := Some \<lparr>s3_Bucket = ''b'', s3_PathPrefix = ''p'', s3_Env = []\<rparr>\<rparr>"]
        intentDuplicateEnv_def exampleSite_def exampleSpec_def exampleMedia_def
        s3Block_def gcsBlock_def remapped_def)
  from env_order [of exampleExternals intentDuplicateEnv exampleIteration "[]"]
  have six: "map ev_Name (take 6 (env exampleExternals intentDuplicateEnv)) =
       [''WP_HOME'', ''WP_SITEURL'', ''WP_CORE_DIRECTORY'', ''STACK_ROUTES'', ''STACK_SITE_NAME'',
        ''STACK_SITE_NAMESPACE'']"
    and rest: "drop 6 (env exampleExternals intentDuplicateEnv) = [?e, bucketVar s3Prefix ''b'' ''p'']"
    and dup: "\<forall>e \<in> set (ws_Env (wp_Spec intentDuplicateEnv)).
         ev_Name e \<in> set (map ev_Name (take 6 (env exampleExternals intentDuplicateEnv))) \<longrightarrow>
         \<not> distinct (map ev_Name (env exampleExternals intentDuplicateEnv))"
    by (simp_all add: u m)
  have "map ev_Name (env exampleExternals intentDuplicateEnv)
      = map ev_Name (take 6 (env exampleExternals intentDuplicateEnv))
        @ map ev_Name (drop 6 (env exampleExternals intentDuplicateEnv))"
    by (simp only: map_append [symmetric] append_take_drop_id)
  with six rest dup u show ?thesis
    by (simp add: bucketVar_def)
qed

text \<open>
  Claim C5. The fourth built-in variable of the main process is \<open>STACK_ROUTES\<close>. For an
  intent with no explicit route its value is the canonical primary domain; for an intent
  with explicit routes it is the \<open>domain/path\<close> strings of the routes, in input order,
  joined by commas.
\<close>

theorem stack_routes:
  "ev_Name (env X wp ! 3) = ''STACK_ROUTES''
   \<and> (ws_Routes (wp_Spec wp) = [] \<longrightarrow> ev_Value (env X wp ! 3) = MainDomain X wp)
   \<and> (ws_Routes (wp_Spec wp) \<noteq> [] \<longrightarrow>
        ev_Value (env X wp ! 3) = strings_Join (map routeString (ws_Routes (wp_Spec wp))) '','')
   \<and> (\<exists>out. WebPodTemplateSpec X ord wp = Some out
          \<and> c_Env (mainContainer out) ! 3 = env X wp ! 3)
   \<and> (\<exists>out. JobPodTemplateSpec X ord wp cmd = Some out
          \<and> c_Env (mainContainer out) ! 3 = env X wp ! 3)"
proof -
  have r: "routes X wp =
      (if ws_Routes (wp_Spec wp) = [] then [MainDomain X wp]
       else map routeString (ws_Routes (wp_Spec wp)))"
    by (simp add: routes_def routeString_def)
  have v: "env X wp ! 3 =
      \<lparr>ev_Name = ''STACK_ROUTES'', ev_Value = strings_Join (routes X wp) '','',
       ev_ValueFrom = None\<rparr>"
    by (simp add: env_closed numeral_3_eq_3)
  have "ev_Name (env X wp ! 3) = ''STACK_ROUTES''"
    by (simp add: v)
  moreover have "ws_Routes (wp_Spec wp) = [] \<longrightarrow> ev_Value (env X wp ! 3) = MainDomain X wp"
    by (simp add: v r)
  moreover have "ws_Routes (wp_Spec wp) \<noteq> [] \<longrightarrow>
        ev_Value (env X wp ! 3) = strings_Join (map routeString (ws_Routes (wp_Spec wp))) '',''"
    by (simp add: v r)
  moreover have "\<exists>out. WebPodTemplateSpec X ord wp = Some out
          \<and> c_Env (mainContainer out) ! 3 = env X wp ! 3"
    using Web_parts [of X ord wp] by auto
  moreover have "\<exists>out. JobPodTemplateSpec X ord wp cmd = Some out
          \<and> c_Env (mainContainer out) ! 3 = env X wp ! 3"
    using Job_parts [of X ord wp cmd] by auto
  ultimately show ?thesis by blast
qed

theorem stack_routes_witness:
  "ws_Routes (wp_Spec (exampleSite exampleSpec)) = []
   \<and> ev_Value (env exampleExternals (exampleSite exampleSpec) ! 3) = ''blog.prod.svc''
   \<and> ws_Routes (wp_Spec intentTwoRoutes) \<noteq> []
   \<and> ev_Value (env exampleExternals intentTwoRoutes ! 3) = ''example.com/blog,example.org/shop''"
proof -
  have j1: "path_Join [''example.com'', ''blog''] = ''example.com/blog''"
    by code_simp
  have j2: "path_Join [''example.org'', ''shop''] = ''example.org/shop''"
    by code_simp
  have e: "ws_Routes (wp_Spec (exampleSite exampleSpec)) = []"
    by (simp add: exampleSite_def exampleSpec_def)
  have t: "ws_Routes (wp_Spec intentTwoRoutes) =
      [\<lparr>r_Domain = ''example.com'', r_Path = ''blog''\<rparr>,
       \<lparr>r_Domain = ''example.org'', r_Path = ''shop''\<rparr>]"
    by (simp add: intentTwoRoutes_def exampleSite_def exampleSpec_def)
  from stack_routes [of exampleExternals "exampleSite exampleSpec" exampleIteration "[]"] e
  have "ev_Value (env exampleExternals (exampleSite exampleSpec) ! 3) = ''blog.prod.svc''"
    by (simp add: exampleExternals_def exampleSite_def)
  moreover from stack_routes [of exampleExternals intentTwoRoutes exampleIteration "[]"] t
  have "ev_Value (env exampleExternals intentTwoRoutes ! 3) = ''example.com/blog,example.org/shop''"
    by (simp add: routeString_def j1 j2)
  ultimately show ?thesis using e t by simp
qed

text \<open>
  Claim C7. A readiness or liveness probe the caller set is the resolved probe, unchanged.
  When the readiness probe is unset, the default is an HTTP GET on port 8080 at path \<open>/\<close>
  with one header, \<open>Host\<close>, whose value is the canonical primary domain; when the liveness
  probe is unset, the default is an HTTP GET on the same port at the path \<open>/-/php-ping\<close>,
  with no header. Both defaults have failure threshold 3, initial delay 10, period 5,
  success threshold 1 and timeout 30. The serving workload's main process carries the
  two resolved probes.
\<close>

theorem probes_default:
  "(\<forall>p. ws_ReadinessProbe (wp_Spec wp) = Some p \<longrightarrow> readinessProbe X wp = p)
   \<and> (\<forall>p. ws_LivenessProbe (wp_Spec wp) = Some p \<longrightarrow> livenessProbe X wp = p)
   \<and> (ws_ReadinessProbe (wp_Spec wp) = None \<longrightarrow>
        h_HTTPGet (p_Handler (readinessProbe X wp)) =
          Some \<lparr>hg_Path = ''/'', hg_Port = IntVal 8080, hg_Host = [], hg_Scheme = [],
                hg_HTTPHeaders = [\<lparr>hh_Name = ''Host'', hh_Value = MainDomain X wp\<rparr>]\<rparr>
        \<and> h_Exec (p_Handler (readinessProbe X wp)) = None
        \<and> h_TCPSocket (p_Handler (readinessProbe X wp)) = None
        \<and> p_FailureThreshold (readinessProbe X wp) = 3
        \<and> p_InitialDelaySeconds (readinessProbe X wp) = 10
        \<and> p_PeriodSeconds (readinessProbe X wp) = 5
        \<and> p_SuccessThreshold (readinessProbe X wp) = 1
        \<and> p_TimeoutSeconds (readinessProbe X wp) = 30)
   \<and> (ws_LivenessProbe (wp_Spec wp) = None \<longrightarrow>
        h_HTTPGet (p_Handler (livenessProbe X wp)) =
          Some \<lparr>hg_Path = ''/-/php-ping'', hg_Port = IntVal 8080, hg_Host = [], hg_Scheme = [],
                hg_HTTPHeaders = []\<rparr>
        \<and> h_Exec (p_Handler (livenessProbe X wp)) = None
        \<and> h_TCPSocket (p_Handler (livenessProbe X wp)) = None
        \<and> p_FailureThreshold (livenessProbe X wp) = 3
        \<and> p_InitialDelaySeconds (livenessProbe X wp) = 10
        \<and> p_PeriodSeconds (livenessProbe X wp) = 5
        \<and> p_SuccessThreshold (livenessProbe X wp) = 1
        \<and> p_TimeoutSeconds (livenessProbe X wp) = 30)
   \<and> (\<exists>out. WebPodTemplateSpec X ord wp = Some out
          \<and> c_ReadinessProbe (mainContainer out) = Some (readinessProbe X wp)
          \<and> c_LivenessProbe (mainContainer out) = Some (livenessProbe X wp))"
proof -
  have "\<forall>p. ws_ReadinessProbe (wp_Spec wp) = Some p \<longrightarrow> readinessProbe X wp = p"
    by (simp add: readinessProbe_def)
  moreover have "\<forall>p. ws_LivenessProbe (wp_Spec wp) = Some p \<longrightarrow> livenessProbe X wp = p"
    by (simp add: livenessProbe_def)
  moreover have "ws_ReadinessProbe (wp_Spec wp) = None \<longrightarrow>
        h_HTTPGet (p_Handler (readinessProbe X wp)) =
          Some \<lparr>hg_Path = ''/'', hg_Port = IntVal 8080, hg_Host = [], hg_Scheme = [],
                hg_HTTPHeaders = [\<lparr>hh_Name = ''Host'', hh_Value = MainDomain X wp\<rparr>]\<rparr>
        \<and> h_Exec (p_Handler (readinessProbe X wp)) = None
        \<and> h_TCPSocket (p_Handler (readinessProbe X wp)) = None
        \<and> p_FailureThreshold (readinessProbe X wp) = 3
        \<and> p_InitialDelaySeconds (readinessProbe X wp) = 10
        \<and> p_PeriodSeconds (readinessProbe X wp) = 5
        \<and> p_SuccessThreshold (readinessProbe X wp) = 1
        \<and> p_TimeoutSeconds (readinessProbe X wp) = 30"
    by (simp add: readinessProbe_def zeroHandler_def InternalHTTPPort_def)
  moreover have "ws_LivenessProbe (wp_Spec wp) = None \<longrightarrow>
        h_HTTPGet (p_Handler (livenessProbe X wp)) =
          Some \<lparr>hg_Path = ''/-/php-ping'', hg_Port = IntVal 8080, hg_Host = [], hg_Scheme = [],
                hg_HTTPHeaders = []\<rparr>
        \<and> h_Exec (p_Handler (livenessProbe X wp)) = None
        \<and> h_TCPSocket (p_Handler (livenessProbe X wp)) = None
        \<and> p_FailureThreshold (livenessProbe X wp) = 3
        \<and> p_InitialDelaySeconds (livenessProbe X wp) = 10
        \<and> p_PeriodSeconds (livenessProbe X wp) = 5
        \<and> p_SuccessThreshold (livenessProbe X wp) = 1
        \<and> p_TimeoutSeconds (livenessProbe X wp) = 30"
    by (simp add: livenessProbe_def zeroHandler_def InternalHTTPPort_def)
  moreover have "\<exists>out. WebPodTemplateSpec X ord wp = Some out
          \<and> c_ReadinessProbe (mainContainer out) = Some (readinessProbe X wp)
          \<and> c_LivenessProbe (mainContainer out) = Some (livenessProbe X wp)"
    using Web_parts [of X ord wp] by auto
  ultimately show ?thesis by blast
qed


theorem probes_default_witness:
  "ws_ReadinessProbe (wp_Spec intentOwnReadiness) = Some exampleProbe
   \<and> readinessProbe exampleExternals intentOwnReadiness = exampleProbe
   \<and> ws_LivenessProbe (wp_Spec intentOwnReadiness) = None
   \<and> p_FailureThreshold (livenessProbe exampleExternals intentOwnReadiness) = 3
   \<and> ws_ReadinessProbe (wp_Spec (exampleSite exampleSpec)) = None
   \<and> map_option hg_HTTPHeaders
        (h_HTTPGet (p_Handler (readinessProbe exampleExternals (exampleSite exampleSpec)))) =
       Some [\<lparr>hh_Name = ''Host'', hh_Value = ''blog.prod.svc''\<rparr>]"
proof -
  have r: "ws_ReadinessProbe (wp_Spec intentOwnReadiness) = Some exampleProbe"
    and l: "ws_LivenessProbe (wp_Spec intentOwnReadiness) = None"
    by (simp_all add: intentOwnReadiness_def exampleSite_def exampleSpec_def)
  have n: "ws_ReadinessProbe (wp_Spec (exampleSite exampleSpec)) = None"
    by (simp add: exampleSite_def exampleSpec_def)
  have d: "MainDomain exampleExternals (exampleSite exampleSpec) = ''blog.prod.svc''"
    by (simp add: exampleExternals_def exampleSite_def)
  from probes_default [of intentOwnReadiness exampleExternals exampleIteration] r l
  have "readinessProbe exampleExternals intentOwnReadiness = exampleProbe"
    and "p_FailureThreshold (livenessProbe exampleExternals intentOwnReadiness) = 3"
    by simp_all
  moreover
  from probes_default [of "exampleSite exampleSpec" exampleExternals exampleIteration] n
  have "map_option hg_HTTPHeaders
        (h_HTTPGet (p_Handler (readinessProbe exampleExternals (exampleSite exampleSpec)))) =
       Some [\<lparr>hh_Name = ''Host'', hh_Value = ''blog.prod.svc''\<rparr>]"
    by (simp add: d)
  ultimately show ?thesis using r l n by simp
qed

lemma s3EnvVars_lookups:
  "s3EnvVars ''AWS_ACCESS_KEY_ID'' = Some ''AWS_ACCESS_KEY_ID''"
  "s3EnvVars ''AWS_SECRET_ACCESS_KEY'' = Some ''AWS_SECRET_ACCESS_KEY''"
  "s3EnvVars ''AWS_CONFIG_FILE'' = Some ''AWS_CONFIG_FILE''"
  "s3EnvVars ''ENDPOINT'' = Some ''S3_ENDPOINT''"
  by (simp_all add: s3EnvVars_def)

lemma gcsEnvVars_lookups:
  "gcsEnvVars ''GOOGLE_CREDENTIALS'' = Some ''GOOGLE_CREDENTIALS''"
  "gcsEnvVars ''GOOGLE_APPLICATION_CREDENTIALS'' = Some ''GOOGLE_APPLICATION_CREDENTIALS''"
  by (simp_all add: gcsEnvVars_def)

lemma mediaEnv_intentBothBackends:
  "mediaEnv intentBothBackends =
     [\<lparr>ev_Name = ''STACK_MEDIA_BUCKET'', ev_Value = ''s3://b/p'', ev_ValueFrom = None\<rparr>,
      \<lparr>ev_Name = ''AWS_ACCESS_KEY_ID'', ev_Value = ''k'', ev_ValueFrom = None\<rparr>,
      \<lparr>ev_Name = ''S3_ENDPOINT'', ev_Value = ''http://minio'', ev_ValueFrom = None\<rparr>,
      \<lparr>ev_Name = ''STACK_MEDIA_BUCKET'', ev_Value = ''gs://g/q'', ev_ValueFrom = None\<rparr>,
      \<lparr>ev_Name = ''GOOGLE_CREDENTIALS'', ev_Value = ''c'', ev_ValueFrom = None\<rparr>]"
proof -
  have j1: "path_Join [''b'', ''p''] = ''b/p''" by code_simp
  have j2: "path_Join [''g'', ''q''] = ''g/q''" by code_simp
  show ?thesis
    by (simp add: mediaEnv_def intentBothBackends_def exampleSite_def exampleSpec_def
        exampleMedia_def j1 j2 s3Prefix_def gcsPrefix_def s3EnvVars_def gcsEnvVars_def)
qed


lemma remapped_names: "e \<in> set (remapped tbl envs) \<Longrightarrow> ev_Name e \<in> ran tbl"
  by (auto simp: remapped_def ran_def split: option.splits)

lemma ran_s3EnvVars:
  "ran s3EnvVars =
     {''AWS_ACCESS_KEY_ID'', ''AWS_SECRET_ACCESS_KEY'', ''AWS_CONFIG_FILE'', ''S3_ENDPOINT''}"
  unfolding s3EnvVars_def by (subst ran_distinct) (simp_all add: insert_commute)

lemma ran_gcsEnvVars:
  "ran gcsEnvVars = {''GOOGLE_CREDENTIALS'', ''GOOGLE_APPLICATION_CREDENTIALS''}"
  unfolding gcsEnvVars_def by (subst ran_distinct) (simp_all add: insert_commute)

lemma remapped_no_bucket:
  "tbl = s3EnvVars \<or> tbl = gcsEnvVars \<Longrightarrow>
   filter (\<lambda>e. ev_Name e = ''STACK_MEDIA_BUCKET'') (remapped tbl envs) = []"
proof -
  assume t: "tbl = s3EnvVars \<or> tbl = gcsEnvVars"
  have "''STACK_MEDIA_BUCKET'' \<notin> ran tbl"
    using t by (auto simp: ran_s3EnvVars ran_gcsEnvVars)
  then have "\<forall>e \<in> set (remapped tbl envs). ev_Name e \<noteq> ''STACK_MEDIA_BUCKET''"
    using remapped_names by metis
  then show ?thesis by (simp add: filter_empty_conv)
qed

text \<open>
  Claim C6, as amended. The media-derived environment is the S3 block followed by the GCS
  block, where the block of a descriptor that is unset is empty. The block of a set
  descriptor starts with one bucket variable whose value is the scheme prefix (\<open>s3\<close>,
  resp. \<open>gs\<close>), \<open>://\<close> and the joined bucket and path prefix; then come the credential
  entries whose name is a key of the backend's table, each renamed to the table's target
  name, the others dropped. So the media-derived environment starts with the \<open>s3\<close>
  bucket variable when the S3 descriptor is set, and with the \<open>gs\<close> bucket variable when
  only the GCS descriptor is set. The tables are the ones the claim lists.
\<close>

theorem media_env_blocks:
  assumes "ws_MediaVolumeSpec (wp_Spec wp) = Some m"
  shows "mediaEnv wp = s3Block (mv_S3VolumeSource m) @ gcsBlock (mv_GCSVolumeSource m)
   \<and> (mv_S3VolumeSource m = None \<longrightarrow> s3Block (mv_S3VolumeSource m) = [])
   \<and> (mv_GCSVolumeSource m = None \<longrightarrow> gcsBlock (mv_GCSVolumeSource m) = [])
   \<and> (\<forall>s3. mv_S3VolumeSource m = Some s3 \<longrightarrow>
         s3Block (mv_S3VolumeSource m) =
           bucketVar ''s3'' (s3_Bucket s3) (s3_PathPrefix s3) # remapped s3EnvVars (s3_Env s3)
         \<and> hd (mediaEnv wp) = bucketVar ''s3'' (s3_Bucket s3) (s3_PathPrefix s3))
   \<and> (\<forall>gcs. mv_GCSVolumeSource m = Some gcs \<longrightarrow>
         gcsBlock (mv_GCSVolumeSource m) =
           bucketVar ''gs'' (gcs_Bucket gcs) (gcs_PathPrefix gcs)
             # remapped gcsEnvVars (gcs_Env gcs)
         \<and> (mv_S3VolumeSource m = None \<longrightarrow>
              hd (mediaEnv wp) = bucketVar ''gs'' (gcs_Bucket gcs) (gcs_PathPrefix gcs)))
   \<and> dom s3EnvVars =
        {''AWS_ACCESS_KEY_ID'', ''AWS_SECRET_ACCESS_KEY'', ''AWS_CONFIG_FILE'', ''ENDPOINT''}
   \<and> s3EnvVars ''AWS_ACCESS_KEY_ID'' = Some ''AWS_ACCESS_KEY_ID''
   \<and> s3EnvVars ''AWS_SECRET_ACCESS_KEY'' = Some ''AWS_SECRET_ACCESS_KEY''
   \<and> s3EnvVars ''AWS_CONFIG_FILE'' = Some ''AWS_CONFIG_FILE''
   \<and> s3EnvVars ''ENDPOINT'' = Some ''S3_ENDPOINT''
   \<and> dom gcsEnvVars = {''GOOGLE_CREDENTIALS'', ''GOOGLE_APPLICATION_CREDENTIALS''}
   \<and> gcsEnvVars ''GOOGLE_CREDENTIALS'' = Some ''GOOGLE_CREDENTIALS''
   \<and> gcsEnvVars ''GOOGLE_APPLICATION_CREDENTIALS'' = Some ''GOOGLE_APPLICATION_CREDENTIALS''"
proof -
  have e: "mediaEnv wp = s3Block (mv_S3VolumeSource m) @ gcsBlock (mv_GCSVolumeSource m)"
    by (rule mediaEnv_Some [OF assms])
  have s: "\<forall>s3. mv_S3VolumeSource m = Some s3 \<longrightarrow>
         s3Block (mv_S3VolumeSource m) =
           bucketVar ''s3'' (s3_Bucket s3) (s3_PathPrefix s3) # remapped s3EnvVars (s3_Env s3)
         \<and> hd (mediaEnv wp) = bucketVar ''s3'' (s3_Bucket s3) (s3_PathPrefix s3)"
    by (simp add: e s3Block_def s3Prefix_def)
  have g: "\<forall>gcs. mv_GCSVolumeSource m = Some gcs \<longrightarrow>
         gcsBlock (mv_GCSVolumeSource m) =
           bucketVar ''gs'' (gcs_Bucket gcs) (gcs_PathPrefix gcs)
             # remapped gcsEnvVars (gcs_Env gcs)
         \<and> (mv_S3VolumeSource m = None \<longrightarrow>
              hd (mediaEnv wp) = bucketVar ''gs'' (gcs_Bucket gcs) (gcs_PathPrefix gcs))"
    by (simp add: e s3Block_def gcsBlock_def gcsPrefix_def)
  have n: "mv_S3VolumeSource m = None \<longrightarrow> s3Block (mv_S3VolumeSource m) = []"
    "mv_GCSVolumeSource m = None \<longrightarrow> gcsBlock (mv_GCSVolumeSource m) = []"
    by (simp_all add: s3Block_def gcsBlock_def)
  show ?thesis
    using e s g n dom_s3EnvVars dom_gcsEnvVars s3EnvVars_lookups gcsEnvVars_lookups
    by (intro conjI) assumption+
qed

theorem media_env_blocks_witness:
  "ws_MediaVolumeSpec (wp_Spec intentBothBackends) \<noteq> None
   \<and> map ev_Name (mediaEnv intentBothBackends) =
       [''STACK_MEDIA_BUCKET'', ''AWS_ACCESS_KEY_ID'', ''S3_ENDPOINT'',
        ''STACK_MEDIA_BUCKET'', ''GOOGLE_CREDENTIALS'']
   \<and> ev_Value (hd (mediaEnv intentBothBackends)) = ''s3://b/p''"
proof -
  let ?s3 = "\<lparr>s3_Bucket = ''b'', s3_PathPrefix = ''p'',
              s3_Env = [\<lparr>ev_Name = ''AWS_ACCESS_KEY_ID'', ev_Value = ''k'', ev_ValueFrom = None\<rparr>,
                        \<lparr>ev_Name = ''DEBUG'', ev_Value = ''1'', ev_ValueFrom = None\<rparr>,
                        \<lparr>ev_Name = ''ENDPOINT'', ev_Value = ''http://minio'',
                          ev_ValueFrom = None\<rparr>]\<rparr>"
  let ?gcs = "\<lparr>gcs_Bucket = ''g'', gcs_PathPrefix = ''q'',
              gcs_Env = [\<lparr>ev_Name = ''GOOGLE_CREDENTIALS'', ev_Value = ''c'',
                           ev_ValueFrom = None\<rparr>]\<rparr>"
  let ?m = "exampleMedia\<lparr>mv_S3VolumeSource := Some ?s3, mv_GCSVolumeSource := Some ?gcs\<rparr>"
  have m: "ws_MediaVolumeSpec (wp_Spec intentBothBackends) = Some ?m"
    by (simp add: intentBothBackends_def exampleSite_def exampleSpec_def)
  have j1: "path_Join [''b'', ''p''] = ''b/p''" by code_simp
  have j2: "path_Join [''g'', ''q''] = ''g/q''" by code_simp
  from media_env_blocks [OF m]
  have "mediaEnv intentBothBackends =
      (bucketVar ''s3'' ''b'' ''p'' # remapped s3EnvVars (s3_Env ?s3))
      @ (bucketVar ''gs'' ''g'' ''q'' # remapped gcsEnvVars (gcs_Env ?gcs))"
    by simp
  then show ?thesis
    using m
    by (simp add: bucketVar_def remapped_def dom_s3EnvVars dom_gcsEnvVars j1 j2
        s3EnvVars_lookups gcsEnvVars_lookups)
qed

theorem media_env_gcs_counterexample:
  "map_option (map_option gcs_Bucket \<circ> mv_GCSVolumeSource)
      (ws_MediaVolumeSpec (wp_Spec intentBothBackends)) = Some (Some ''g'')
   \<and> ev_Value (hd (mediaEnv intentBothBackends)) = ''s3://b/p''
   \<and> ev_Value (hd (mediaEnv intentBothBackends)) \<noteq> ''gs'' @ ''://'' @ path_Join [''g'', ''q'']"
proof -
  have j2: "path_Join [''g'', ''q''] = ''g/q''" by code_simp
  show ?thesis
    by (simp add: mediaEnv_intentBothBackends j2)
       (simp add: intentBothBackends_def exampleSite_def exampleSpec_def)
qed

text \<open>
  Claim C10. When both backend descriptors are set, the media-derived environment is the
  \<open>s3\<close> bucket variable, the remapped S3 credentials, the \<open>gs\<close> bucket variable and the
  remapped GCS credentials, in this order. Both bucket variables have the name
  \<open>STACK_MEDIA_BUCKET\<close>, and they are the only two entries of that name: no descriptor
  wins over the other.
\<close>

theorem both_backends:
  assumes "ws_MediaVolumeSpec (wp_Spec wp) = Some m"
      and "mv_S3VolumeSource m = Some s3"
      and "mv_GCSVolumeSource m = Some gcs"
  shows "mediaEnv wp =
       [\<lparr>ev_Name = ''STACK_MEDIA_BUCKET'',
         ev_Value = ''s3://'' @ path_Join [s3_Bucket s3, s3_PathPrefix s3],
         ev_ValueFrom = None\<rparr>]
       @ remapped s3EnvVars (s3_Env s3)
       @ [\<lparr>ev_Name = ''STACK_MEDIA_BUCKET'',
           ev_Value = ''gs://'' @ path_Join [gcs_Bucket gcs, gcs_PathPrefix gcs],
           ev_ValueFrom = None\<rparr>]
       @ remapped gcsEnvVars (gcs_Env gcs)
   \<and> length (filter (\<lambda>e. ev_Name e = ''STACK_MEDIA_BUCKET'') (mediaEnv wp)) = 2"
proof -
  have e: "mediaEnv wp =
       [\<lparr>ev_Name = ''STACK_MEDIA_BUCKET'',
         ev_Value = ''s3://'' @ path_Join [s3_Bucket s3, s3_PathPrefix s3],
         ev_ValueFrom = None\<rparr>]
       @ remapped s3EnvVars (s3_Env s3)
       @ [\<lparr>ev_Name = ''STACK_MEDIA_BUCKET'',
           ev_Value = ''gs://'' @ path_Join [gcs_Bucket gcs, gcs_PathPrefix gcs],
           ev_ValueFrom = None\<rparr>]
       @ remapped gcsEnvVars (gcs_Env gcs)"
    using assms
    by (simp add: mediaEnv_Some [OF assms(1)] s3Block_def gcsBlock_def bucketVar_def
        s3Prefix_def gcsPrefix_def)
  have "length (filter (\<lambda>e. ev_Name e = ''STACK_MEDIA_BUCKET'') (mediaEnv wp)) = 2"
    by (simp add: e remapped_no_bucket)
  with e show ?thesis by simp
qed

theorem both_backends_witness:
  "map ev_Value (mediaEnv intentBothBackends) =
     [''s3://b/p'', ''k'', ''http://minio'', ''gs://g/q'', ''c'']
   \<and> length (filter (\<lambda>e. ev_Name e = ''STACK_MEDIA_BUCKET'') (mediaEnv intentBothBackends)) = 2"
proof -
  let ?s3 = "\<lparr>s3_Bucket = ''b'', s3_PathPrefix = ''p'',
              s3_Env = [\<lparr>ev_Name = ''AWS_ACCESS_KEY_ID'', ev_Value = ''k'', ev_ValueFrom = None\<rparr>,
                        \<lparr>ev_Name = ''DEBUG'', ev_Value = ''1'', ev_ValueFrom = None\<rparr>,
                        \<lparr>ev_Name = ''ENDPOINT'', ev_Value = ''http://minio'',
                          ev_ValueFrom = None\<rparr>]\<rparr>"
  let ?gcs = "\<lparr>gcs_Bucket = ''g'', gcs_PathPrefix = ''q'',
              gcs_Env = [\<lparr>ev_Name = ''GOOGLE_CREDENTIALS'', ev_Value = ''c'',
                           ev_ValueFrom = None\<rparr>]\<rparr>"
  let ?m = "exampleMedia\<lparr>mv_S3VolumeSource := Some ?s3, mv_GCSVolumeSource := Some ?gcs\<rparr>"
  have m: "ws_MediaVolumeSpec (wp_Spec intentBothBackends) = Some ?m"
    by (simp add: intentBothBackends_def exampleSite_def exampleSpec_def)
  have j1: "path_Join [''b'', ''p''] = ''b/p''" by code_simp
  have j2: "path_Join [''g'', ''q''] = ''g/q''" by code_simp
  have s: "mv_S3VolumeSource ?m = Some ?s3" by simp
  have g: "mv_GCSVolumeSource ?m = Some ?gcs" by simp
  note c = both_backends [OF m s g]
  have a: "mediaEnv intentBothBackends =
       [\<lparr>ev_Name = ''STACK_MEDIA_BUCKET'', ev_Value = ''s3://b/p'', ev_ValueFrom = None\<rparr>]
       @ remapped s3EnvVars (s3_Env ?s3)
       @ [\<lparr>ev_Name = ''STACK_MEDIA_BUCKET'', ev_Value = ''gs://g/q'', ev_ValueFrom = None\<rparr>]
       @ remapped gcsEnvVars (gcs_Env ?gcs)"
    using c [THEN conjunct1] by (simp add: j1 j2)
  have b: "length (filter (\<lambda>e. ev_Name e = ''STACK_MEDIA_BUCKET'')
              (mediaEnv intentBothBackends)) = 2"
    using c by (rule conjunct2)
  have "map ev_Value (mediaEnv intentBothBackends) =
     [''s3://b/p'', ''k'', ''http://minio'', ''gs://g/q'', ''c'']"
    by (simp add: a remapped_def dom_s3EnvVars dom_gcsEnvVars
        s3EnvVars_lookups gcsEnvVars_lookups)
  with b show ?thesis by simp
qed

lemma noCodeVariant_hasCodeMounts: "noCodeVariant wp \<longleftrightarrow> \<not> hasCodeMounts wp"
  by (cases "ws_CodeVolumeSpec (wp_Spec wp)")
     (simp_all add: noCodeVariant_def hasCodeMounts_def)

lemma noCodeVariant_gitVariant: "noCodeVariant wp \<Longrightarrow> gitVariant wp = None"
  by (cases "ws_CodeVolumeSpec (wp_Spec wp)")
     (simp_all add: noCodeVariant_def gitVariant_def)

lemma codeMountsOf_noCodeVariant: "noCodeVariant wp \<Longrightarrow> codeMountsOf X wp = []"
  by (cases "ws_CodeVolumeSpec (wp_Spec wp)")
     (simp_all add: noCodeVariant_hasCodeMounts codeMountsOf_def)

lemma codeVolume_sources: "sourcesSet (v_VolumeSource (codeVolume X wp)) = 1"
  by (simp add: codeVolume_def sourcesSet_def zeroVolumeSource_def Let_def split: option.split)

text \<open>
  Claim C4. The code volume always has exactly one source, chosen among the variants of
  the code source by the first match in the order git, claim, hostPath, ephemeral: the
  git variant gives ephemeral storage (its own override if set) whatever else is set, the
  claim gives a claim reference when git is unset, and so on; several variants set at
  once are never an error. When code mounts are present the volume list holds this code
  volume. When no variant is set, the workload has no code volume (the volume list is
  the auxiliary volumes, the user's volumes and the media volume if present), no code
  mount entries, and no code-fetch step among the init steps.
\<close>

theorem code_source_priority:
  "v_Name (codeVolume X wp) = ''code''
   \<and> sourcesSet (v_VolumeSource (codeVolume X wp)) = 1
   \<and> (\<forall>c g. ws_CodeVolumeSpec (wp_Spec wp) = Some c \<longrightarrow> cv_GitDir c = Some g \<longrightarrow>
         v_VolumeSource (codeVolume X wp) =
           \<lparr>vs_HostPath = None,
            vs_EmptyDir = Some (case git_EmptyDir g of
                                  Some e \<Rightarrow> e
                                | None \<Rightarrow> \<lparr>ed_Medium = [], ed_SizeLimit = None\<rparr>),
            vs_PersistentVolumeClaim = None\<rparr>)
   \<and> (\<forall>c p. ws_CodeVolumeSpec (wp_Spec wp) = Some c \<longrightarrow> cv_GitDir c = None \<longrightarrow>
         cv_PersistentVolumeClaim c = Some p \<longrightarrow>
         v_VolumeSource (codeVolume X wp) =
           \<lparr>vs_HostPath = None, vs_EmptyDir = None,
            vs_PersistentVolumeClaim =
              Some \<lparr>pvcs_ClaimName = ComponentName X wp WordpressCodePVC,
                    pvcs_ReadOnly = False\<rparr>\<rparr>)
   \<and> (\<forall>c h. ws_CodeVolumeSpec (wp_Spec wp) = Some c \<longrightarrow> cv_GitDir c = None \<longrightarrow>
         cv_PersistentVolumeClaim c = None \<longrightarrow> cv_HostPath c = Some h \<longrightarrow>
         v_VolumeSource (codeVolume X wp) =
           \<lparr>vs_HostPath = Some h, vs_EmptyDir = None, vs_PersistentVolumeClaim = None\<rparr>)
   \<and> (\<forall>c e. ws_CodeVolumeSpec (wp_Spec wp) = Some c \<longrightarrow> cv_GitDir c = None \<longrightarrow>
         cv_PersistentVolumeClaim c = None \<longrightarrow> cv_HostPath c = None \<longrightarrow>
         cv_EmptyDir c = Some e \<longrightarrow>
         v_VolumeSource (codeVolume X wp) =
           \<lparr>vs_HostPath = None, vs_EmptyDir = Some e, vs_PersistentVolumeClaim = None\<rparr>)
   \<and> (hasCodeMounts wp \<longrightarrow>
         volumes X wp =
           auxVolumes X @ ws_Volumes (wp_Spec wp) @ [codeVolume X wp]
           @ (if hasMediaMounts wp then [mediaVolume X wp] else []))
   \<and> (noCodeVariant wp \<longrightarrow>
         volumes X wp =
           auxVolumes X @ ws_Volumes (wp_Spec wp)
           @ (if hasMediaMounts wp then [mediaVolume X wp] else [])
         \<and> volumeMounts X wp =
             Some ([logMount X] @ ws_VolumeMounts (wp_Spec wp) @ mediaMountsOf wp)
         \<and> (\<exists>prep install.
               prepareVolumesContainer X wp = Some prep
               \<and> installWPContainer X wp = Some install
               \<and> initContainers X wp =
                   Some ((if hasMediaMounts wp then [prep] else [])
                         @ ws_InitContainers (wp_Spec wp) @ install)))"
proof -
  have name: "v_Name (codeVolume X wp) = ''code''"
    by (simp add: codeVolume_def codeVolumeName_def Let_def split: option.split)
  have git: "\<forall>c g. ws_CodeVolumeSpec (wp_Spec wp) = Some c \<longrightarrow> cv_GitDir c = Some g \<longrightarrow>
         v_VolumeSource (codeVolume X wp) =
           \<lparr>vs_HostPath = None,
            vs_EmptyDir = Some (case git_EmptyDir g of
                                  Some e \<Rightarrow> e
                                | None \<Rightarrow> \<lparr>ed_Medium = [], ed_SizeLimit = None\<rparr>),
            vs_PersistentVolumeClaim = None\<rparr>"
    by (simp add: codeVolume_def zeroVolumeSource_def zeroEmptyDir_def Let_def
        split: option.split)
  have claim: "\<forall>c p. ws_CodeVolumeSpec (wp_Spec wp) = Some c \<longrightarrow> cv_GitDir c = None \<longrightarrow>
         cv_PersistentVolumeClaim c = Some p \<longrightarrow>
         v_VolumeSource (codeVolume X wp) =
           \<lparr>vs_HostPath = None, vs_EmptyDir = None,
            vs_PersistentVolumeClaim =
              Some \<lparr>pvcs_ClaimName = ComponentName X wp WordpressCodePVC,
                    pvcs_ReadOnly = False\<rparr>\<rparr>"
    by (simp add: codeVolume_def zeroVolumeSource_def Let_def)
  have host: "\<forall>c h. ws_CodeVolumeSpec (wp_Spec wp) = Some c \<longrightarrow> cv_GitDir c = None \<longrightarrow>
         cv_PersistentVolumeClaim c = None \<longrightarrow> cv_HostPath c = Some h \<longrightarrow>
         v_VolumeSource (codeVolume X wp) =
           \<lparr>vs_HostPath = Some h, vs_EmptyDir = None, vs_PersistentVolumeClaim = None\<rparr>"
    by (simp add: codeVolume_def zeroVolumeSource_def Let_def)
  have empty: "\<forall>c e. ws_CodeVolumeSpec (wp_Spec wp) = Some c \<longrightarrow> cv_GitDir c = None \<longrightarrow>
         cv_PersistentVolumeClaim c = None \<longrightarrow> cv_HostPath c = None \<longrightarrow>
         cv_EmptyDir c = Some e \<longrightarrow>
         v_VolumeSource (codeVolume X wp) =
           \<lparr>vs_HostPath = None, vs_EmptyDir = Some e, vs_PersistentVolumeClaim = None\<rparr>"
    by (simp add: codeVolume_def zeroVolumeSource_def Let_def)
  have present: "hasCodeMounts wp \<longrightarrow>
         volumes X wp =
           auxVolumes X @ ws_Volumes (wp_Spec wp) @ [codeVolume X wp]
           @ (if hasMediaMounts wp then [mediaVolume X wp] else [])"
    by (simp add: volumes_closed)
  have absent: "noCodeVariant wp \<longrightarrow>
         volumes X wp =
           auxVolumes X @ ws_Volumes (wp_Spec wp)
           @ (if hasMediaMounts wp then [mediaVolume X wp] else [])
         \<and> volumeMounts X wp =
             Some ([logMount X] @ ws_VolumeMounts (wp_Spec wp) @ mediaMountsOf wp)
         \<and> (\<exists>prep install.
               prepareVolumesContainer X wp = Some prep
               \<and> installWPContainer X wp = Some install
               \<and> initContainers X wp =
                   Some ((if hasMediaMounts wp then [prep] else [])
                         @ ws_InitContainers (wp_Spec wp) @ install))"
  proof
    assume n: "noCodeVariant wp"
    then have h: "\<not> hasCodeMounts wp" by (simp add: noCodeVariant_hasCodeMounts)
    obtain prep where p: "prepareVolumesContainer X wp = Some prep"
      using prepareVolumesContainer_Some by blast
    obtain install where i: "installWPContainer X wp = Some install"
      using installWPContainer_Some by blast
    have "initContainers X wp =
                   Some ((if hasMediaMounts wp then [prep] else [])
                         @ ws_InitContainers (wp_Spec wp) @ install)"
      using initContainers_closed [OF p i] noCodeVariant_gitVariant [OF n] h by simp
    with p i h n show "volumes X wp =
           auxVolumes X @ ws_Volumes (wp_Spec wp)
           @ (if hasMediaMounts wp then [mediaVolume X wp] else [])
         \<and> volumeMounts X wp =
             Some ([logMount X] @ ws_VolumeMounts (wp_Spec wp) @ mediaMountsOf wp)
         \<and> (\<exists>prep install.
               prepareVolumesContainer X wp = Some prep
               \<and> installWPContainer X wp = Some install
               \<and> initContainers X wp =
                   Some ((if hasMediaMounts wp then [prep] else [])
                         @ ws_InitContainers (wp_Spec wp) @ install))"
      by (simp add: volumes_closed volumeMounts_closed codeMountsOf_noCodeVariant)
  qed
  show ?thesis
    using name codeVolume_sources [of X wp] git claim host empty present absent
    by (intro conjI) assumption+
qed


theorem code_source_priority_witness:
  "map_option (\<lambda>c. (cv_GitDir c \<noteq> None, cv_PersistentVolumeClaim c \<noteq> None,
                     cv_HostPath c \<noteq> None))
      (ws_CodeVolumeSpec (wp_Spec intentThreeVariants)) = Some (True, True, True)
   \<and> v_VolumeSource (codeVolume exampleExternals intentThreeVariants) =
       \<lparr>vs_HostPath = None, vs_EmptyDir = Some \<lparr>ed_Medium = [], ed_SizeLimit = None\<rparr>,
        vs_PersistentVolumeClaim = None\<rparr>
   \<and> noCodeVariant intentNoVariant
   \<and> volumes exampleExternals intentNoVariant = auxVolumes exampleExternals
   \<and> volumeMounts exampleExternals intentNoVariant = Some [logMount exampleExternals]
   \<and> initContainers exampleExternals intentNoVariant = Some []"
proof -
  let ?g = "\<lparr>git_Repository = ''https://example/repo.git'', git_GitRef = ''main'',
             git_Env = [], git_EnvFrom = [], git_EmptyDir = None\<rparr>"
  let ?c = "exampleCode
          \<lparr>cv_GitDir := Some ?g,
           cv_PersistentVolumeClaim := Some \<lparr>pvc_StorageClassName = None, pvc_Storage = ''1Gi''\<rparr>,
           cv_HostPath := Some \<lparr>hp_Path = ''/srv/code'', hp_Type = None\<rparr>\<rparr>"
  have c: "ws_CodeVolumeSpec (wp_Spec intentThreeVariants) = Some ?c"
    by (simp add: intentThreeVariants_def exampleSite_def exampleSpec_def)
  have g: "cv_GitDir ?c = Some ?g" by simp
  have n: "noCodeVariant intentNoVariant"
    by (simp add: noCodeVariant_def intentNoVariant_def exampleSite_def exampleSpec_def
        exampleCode_def)
  have m: "\<not> hasMediaMounts intentNoVariant"
    by (simp add: hasMediaMounts_def intentNoVariant_def exampleSite_def exampleSpec_def)
  have u: "ws_Volumes (wp_Spec intentNoVariant) = []"
    "ws_VolumeMounts (wp_Spec intentNoVariant) = []"
    "ws_InitContainers (wp_Spec intentNoVariant) = []"
    "ws_MediaVolumeSpec (wp_Spec intentNoVariant) = None"
    by (simp_all add: intentNoVariant_def exampleSite_def exampleSpec_def)
  have i: "installWPContainer exampleExternals intentNoVariant = Some []"
    by (simp add: installWPContainer_def intentNoVariant_def exampleSite_def exampleSpec_def)
  note t = code_source_priority [of exampleExternals intentThreeVariants]
  note a = code_source_priority [of exampleExternals intentNoVariant]
  from t c g have "v_VolumeSource (codeVolume exampleExternals intentThreeVariants) =
       \<lparr>vs_HostPath = None, vs_EmptyDir = Some \<lparr>ed_Medium = [], ed_SizeLimit = None\<rparr>,
        vs_PersistentVolumeClaim = None\<rparr>"
    by simp
  moreover from a n m u have "volumes exampleExternals intentNoVariant = auxVolumes exampleExternals"
    and "volumeMounts exampleExternals intentNoVariant = Some [logMount exampleExternals]"
    by (simp_all add: mediaMountsOf_def)
  moreover from a n m u i have "initContainers exampleExternals intentNoVariant = Some []"
    by auto
  ultimately show ?thesis
    using c n by (simp add: exampleCode_def)
qed

text \<open>
  Claim C8, as amended. For every intent with code mounts present, the mount list of the
  main process is the log mount, then the user-supplied mounts as given, then exactly
  three entries that the compiler adds for the code volume, then the media mount if
  present. The three entries are the raw fetch destination, read-only as the caller
  marked the code source; the content sub-path at the caller's application path, with
  the same flag; and the config sub-path at the fixed configuration path, read-only. All
  three name the code volume. The user-supplied mounts are not filtered, so the entries
  of the list that name the code volume are these three and those among the
  user-supplied mounts (and the log mount, if the log volume had the same name).
\<close>

theorem code_mounts:
  assumes "hasCodeMounts wp"
  shows "\<exists>c. ws_CodeVolumeSpec (wp_Spec wp) = Some c
     \<and> volumeMounts X wp =
         Some ([logMount X] @ ws_VolumeMounts (wp_Spec wp)
               @ [\<lparr>vm_Name = ''code'', vm_ReadOnly = cv_ReadOnly c,
                    vm_MountPath = codeSrcMountPath X, vm_SubPath = []\<rparr>,
                   \<lparr>vm_Name = ''code'', vm_ReadOnly = cv_ReadOnly c,
                    vm_MountPath = cv_MountPath c, vm_SubPath = cv_ContentSubPath c\<rparr>,
                   \<lparr>vm_Name = ''code'', vm_ReadOnly = True,
                    vm_MountPath = configMountPath X, vm_SubPath = cv_ConfigSubPath c\<rparr>]
               @ mediaMountsOf wp)
     \<and> v_Name (codeVolume X wp) = ''code''
     \<and> (\<forall>ms. volumeMounts X wp = Some ms \<longrightarrow>
           length (filter (\<lambda>m. vm_Name m = ''code'') ms) =
             3 + length (filter (\<lambda>m. vm_Name m = ''code'') (ws_VolumeMounts (wp_Spec wp)))
               + (if knativeVarLogVolume X = ''code'' then 1 else 0))
     \<and> (\<exists>out. WebPodTemplateSpec X ord wp = Some out
            \<and> Some (c_VolumeMounts (mainContainer out)) = volumeMounts X wp)
     \<and> (\<exists>out. JobPodTemplateSpec X ord wp cmd = Some out
            \<and> Some (c_VolumeMounts (mainContainer out)) = volumeMounts X wp)"
proof -
  from assms obtain c where c: "ws_CodeVolumeSpec (wp_Spec wp) = Some c"
    by (cases "ws_CodeVolumeSpec (wp_Spec wp)") (simp_all add: hasCodeMounts_def)
  have cm: "codeMountsOf X wp =
      [\<lparr>vm_Name = ''code'', vm_ReadOnly = cv_ReadOnly c,
        vm_MountPath = codeSrcMountPath X, vm_SubPath = []\<rparr>,
       \<lparr>vm_Name = ''code'', vm_ReadOnly = cv_ReadOnly c,
        vm_MountPath = cv_MountPath c, vm_SubPath = cv_ContentSubPath c\<rparr>,
       \<lparr>vm_Name = ''code'', vm_ReadOnly = True,
        vm_MountPath = configMountPath X, vm_SubPath = cv_ConfigSubPath c\<rparr>]"
    using assms c by (simp add: codeMountsOf_def codeMounts_def codeVolumeName_def)
  have mm: "filter (\<lambda>m. vm_Name m = ''code'') (mediaMountsOf wp) = []"
    by (simp add: mediaMountsOf_def mediaMount_def mediaVolumeName_def split: option.split)
  have v: "volumeMounts X wp =
         Some ([logMount X] @ ws_VolumeMounts (wp_Spec wp)
               @ [\<lparr>vm_Name = ''code'', vm_ReadOnly = cv_ReadOnly c,
                    vm_MountPath = codeSrcMountPath X, vm_SubPath = []\<rparr>,
                   \<lparr>vm_Name = ''code'', vm_ReadOnly = cv_ReadOnly c,
                    vm_MountPath = cv_MountPath c, vm_SubPath = cv_ContentSubPath c\<rparr>,
                   \<lparr>vm_Name = ''code'', vm_ReadOnly = True,
                    vm_MountPath = configMountPath X, vm_SubPath = cv_ConfigSubPath c\<rparr>]
               @ mediaMountsOf wp)"
    by (simp add: volumeMounts_closed cm)
  have name: "v_Name (codeVolume X wp) = ''code''"
    by (simp add: codeVolume_def codeVolumeName_def Let_def split: option.split)
  have count: "\<forall>ms. volumeMounts X wp = Some ms \<longrightarrow>
           length (filter (\<lambda>m. vm_Name m = ''code'') ms) =
             3 + length (filter (\<lambda>m. vm_Name m = ''code'') (ws_VolumeMounts (wp_Spec wp)))
               + (if knativeVarLogVolume X = ''code'' then 1 else 0)"
    by (simp add: v mm logMount_def)
  have web: "\<exists>out. WebPodTemplateSpec X ord wp = Some out
            \<and> Some (c_VolumeMounts (mainContainer out)) = volumeMounts X wp"
    using Web_parts [of X ord wp] by auto
  have job: "\<exists>out. JobPodTemplateSpec X ord wp cmd = Some out
            \<and> Some (c_VolumeMounts (mainContainer out)) = volumeMounts X wp"
    using Job_parts [of X ord wp cmd] by auto
  from c v name count web job show ?thesis by blast
qed

lemma volumeMounts_intentUserCodeMount:
  "map_option (map vm_Name) (volumeMounts exampleExternals intentUserCodeMount) =
     Some [''knative-var-log'', ''code'', ''code'', ''code'', ''code'']"
  by (simp add: volumeMounts_def hasCodeMounts_def hasMediaMounts_def intentUserCodeMount_def
      exampleSite_def exampleSpec_def exampleCode_def exampleExternals_def Let_def
      zeroVolumeMount_def codeVolumeName_def)

theorem code_mounts_witness:
  "hasCodeMounts intentUserCodeMount
   \<and> map_option (map (\<lambda>m. (vm_MountPath m, vm_SubPath m, vm_ReadOnly m)))
        (volumeMounts exampleExternals intentUserCodeMount) =
       Some [(''/var/log'', [], False),
             (''/app/vendor'', ''vendor'', True),
             (''/var/run/code/src'', [], False),
             (''/app/web/wp-content'', ''wp-content'', False),
             (''/app/config'', ''config'', True)]"
proof -
  have h: "hasCodeMounts intentUserCodeMount"
    by (simp add: hasCodeMounts_def intentUserCodeMount_def exampleSite_def exampleSpec_def
        exampleCode_def)
  have m: "mediaMountsOf intentUserCodeMount = []"
    by (simp add: mediaMountsOf_def intentUserCodeMount_def exampleSite_def exampleSpec_def)
  have u: "ws_VolumeMounts (wp_Spec intentUserCodeMount) =
      [\<lparr>vm_Name = ''code'', vm_ReadOnly = True,
        vm_MountPath = ''/app/vendor'', vm_SubPath = ''vendor''\<rparr>]"
    by (simp add: intentUserCodeMount_def exampleSite_def exampleSpec_def)
  have c: "ws_CodeVolumeSpec (wp_Spec intentUserCodeMount) =
      Some (exampleCode
          \<lparr>cv_GitDir := Some \<lparr>git_Repository = ''https://example/repo.git'', git_GitRef = ''main'',
                               git_Env = [], git_EnvFrom = [], git_EmptyDir = None\<rparr>\<rparr>)"
    by (simp add: intentUserCodeMount_def exampleSite_def exampleSpec_def)
  from code_mounts [OF h, of exampleExternals exampleIteration "[]"] c
  have "volumeMounts exampleExternals intentUserCodeMount =
      Some ([logMount exampleExternals] @ ws_VolumeMounts (wp_Spec intentUserCodeMount)
            @ [\<lparr>vm_Name = ''code'', vm_ReadOnly = False,
                 vm_MountPath = ''/var/run/code/src'', vm_SubPath = []\<rparr>,
                \<lparr>vm_Name = ''code'', vm_ReadOnly = False,
                 vm_MountPath = ''/app/web/wp-content'', vm_SubPath = ''wp-content''\<rparr>,
                \<lparr>vm_Name = ''code'', vm_ReadOnly = True,
                 vm_MountPath = ''/app/config'', vm_SubPath = ''config''\<rparr>]
            @ mediaMountsOf intentUserCodeMount)"
    by (auto simp: exampleCode_def exampleExternals_def)
  with h show ?thesis
    by (simp add: m u logMount_def exampleExternals_def)
qed

theorem code_mounts_counterexample:
  "hasCodeMounts intentUserCodeMount
   \<and> map_option (map vm_Name) (volumeMounts exampleExternals intentUserCodeMount) =
       Some [''knative-var-log'', ''code'', ''code'', ''code'', ''code'']
   \<and> map_option (length \<circ> filter ((=) codeVolumeName \<circ> vm_Name))
        (volumeMounts exampleExternals intentUserCodeMount) = Some 4"
proof -
  have h: "hasCodeMounts intentUserCodeMount"
    by (simp add: hasCodeMounts_def intentUserCodeMount_def exampleSite_def exampleSpec_def
        exampleCode_def)
  obtain ms where ms: "volumeMounts exampleExternals intentUserCodeMount = Some ms"
    by (simp add: volumeMounts_closed)
  with volumeMounts_intentUserCodeMount
  have n: "map vm_Name ms = [''knative-var-log'', ''code'', ''code'', ''code'', ''code'']"
    by simp
  have "length (filter ((=) codeVolumeName \<circ> vm_Name) ms)
      = length (filter ((=) codeVolumeName) (map vm_Name ms))"
    by (simp add: filter_map)
  also have "\<dots> = 4"
    by (simp add: n codeVolumeName_def)
  finally show ?thesis
    using h ms volumeMounts_intentUserCodeMount by simp
qed

text \<open>
  Claim C1, as amended. For every intent whose media source sets a backend descriptor
  (S3 or GCS) and none of the mount-source variants, media mounts are absent: the volume
  list is the auxiliary volumes, the user's volumes and the code volume if code mounts
  are present, with no media volume added; the mount list of the main process is the log
  mount, the user's mounts and the code mounts, with no media mount added. The backend
  descriptor only yields the media-derived environment variables. The media volume
  resolver does default to ephemeral storage for such an intent, but its result is
  attached only when a mount-source variant is set.
\<close>

theorem media_backend_only:
  assumes "ws_MediaVolumeSpec (wp_Spec wp) = Some m"
      and "mv_S3VolumeSource m \<noteq> None \<or> mv_GCSVolumeSource m \<noteq> None"
      and "mv_PersistentVolumeClaim m = None"
      and "mv_HostPath m = None"
      and "mv_EmptyDir m = None"
  shows "\<not> hasMediaMounts wp
     \<and> volumes X wp =
         auxVolumes X @ ws_Volumes (wp_Spec wp)
         @ (if hasCodeMounts wp then [codeVolume X wp] else [])
     \<and> volumeMounts X wp =
         Some ([logMount X] @ ws_VolumeMounts (wp_Spec wp) @ codeMountsOf X wp)
     \<and> mediaEnv wp \<noteq> []
     \<and> mediaVolume X wp =
         \<lparr>v_Name = ''media'',
          v_VolumeSource = \<lparr>vs_HostPath = None,
                            vs_EmptyDir = Some \<lparr>ed_Medium = [], ed_SizeLimit = None\<rparr>,
                            vs_PersistentVolumeClaim = None\<rparr>\<rparr>
     \<and> (\<exists>out. WebPodTemplateSpec X ord wp = Some out
            \<and> ps_Volumes (pts_Spec out) = volumes X wp
            \<and> Some (c_VolumeMounts (mainContainer out)) = volumeMounts X wp)
     \<and> (\<exists>out. JobPodTemplateSpec X ord wp cmd = Some out
            \<and> ps_Volumes (pts_Spec out) = volumes X wp
            \<and> Some (c_VolumeMounts (mainContainer out)) = volumeMounts X wp)"
proof -
  have h: "\<not> hasMediaMounts wp"
    using assms by (simp add: hasMediaMounts_def)
  have v: "volumes X wp =
         auxVolumes X @ ws_Volumes (wp_Spec wp)
         @ (if hasCodeMounts wp then [codeVolume X wp] else [])"
    using h by (simp add: volumes_closed)
  have mo: "mediaMountsOf wp = []"
    using h assms(1) by (simp add: mediaMountsOf_def)
  have vm: "volumeMounts X wp =
         Some ([logMount X] @ ws_VolumeMounts (wp_Spec wp) @ codeMountsOf X wp)"
    by (simp add: volumeMounts_closed mo)
  have e: "mediaEnv wp \<noteq> []"
    using assms(2) by (auto simp: mediaEnv_Some [OF assms(1)] s3Block_def gcsBlock_def)
  have d: "mediaVolume X wp =
         \<lparr>v_Name = ''media'',
          v_VolumeSource = \<lparr>vs_HostPath = None,
                            vs_EmptyDir = Some \<lparr>ed_Medium = [], ed_SizeLimit = None\<rparr>,
                            vs_PersistentVolumeClaim = None\<rparr>\<rparr>"
    using assms
    by (simp add: mediaVolume_def mediaVolumeName_def zeroVolumeSource_def zeroEmptyDir_def)
  have web: "\<exists>out. WebPodTemplateSpec X ord wp = Some out
            \<and> ps_Volumes (pts_Spec out) = volumes X wp
            \<and> Some (c_VolumeMounts (mainContainer out)) = volumeMounts X wp"
    using Web_parts [of X ord wp] by auto
  have job: "\<exists>out. JobPodTemplateSpec X ord wp cmd = Some out
            \<and> ps_Volumes (pts_Spec out) = volumes X wp
            \<and> Some (c_VolumeMounts (mainContainer out)) = volumeMounts X wp"
    using Job_parts [of X ord wp cmd] by auto
  from h v vm e d web job show ?thesis
    by (intro conjI) assumption+
qed

theorem media_backend_only_witness:
  "map_option (map_option s3_Bucket \<circ> mv_S3VolumeSource)
      (ws_MediaVolumeSpec (wp_Spec intentS3Only)) = Some (Some ''b'')
   \<and> \<not> hasMediaMounts intentS3Only
   \<and> volumes exampleExternals intentS3Only = auxVolumes exampleExternals
   \<and> volumeMounts exampleExternals intentS3Only = Some [logMount exampleExternals]"
proof -
  let ?m = "exampleMedia
          \<lparr>mv_S3VolumeSource := Some \<lparr>s3_Bucket = ''b'', s3_PathPrefix = ''p'', s3_Env = []\<rparr>\<rparr>"
  have m: "ws_MediaVolumeSpec (wp_Spec intentS3Only) = Some ?m"
    by (simp add: intentS3Only_def exampleSite_def exampleSpec_def)
  have s: "mv_S3VolumeSource ?m \<noteq> None \<or> mv_GCSVolumeSource ?m \<noteq> None" by simp
  have p: "mv_PersistentVolumeClaim ?m = None" "mv_HostPath ?m = None" "mv_EmptyDir ?m = None"
    by (simp_all add: exampleMedia_def)
  have c: "\<not> hasCodeMounts intentS3Only" "codeMountsOf exampleExternals intentS3Only = []"
    "ws_Volumes (wp_Spec intentS3Only) = []" "ws_VolumeMounts (wp_Spec intentS3Only) = []"
    by (simp_all add: hasCodeMounts_def codeMountsOf_def intentS3Only_def exampleSite_def
        exampleSpec_def)
  from media_backend_only [OF m s p, of exampleExternals exampleIteration "[]"] c m
  show ?thesis by simp
qed

theorem media_backend_only_counterexample:
  "map_option (map_option s3_Bucket \<circ> mv_S3VolumeSource)
      (ws_MediaVolumeSpec (wp_Spec intentS3Only)) = Some (Some ''b'')
   \<and> map_option mv_PersistentVolumeClaim (ws_MediaVolumeSpec (wp_Spec intentS3Only)) = Some None
   \<and> map_option mv_HostPath (ws_MediaVolumeSpec (wp_Spec intentS3Only)) = Some None
   \<and> map_option mv_EmptyDir (ws_MediaVolumeSpec (wp_Spec intentS3Only)) = Some None
   \<and> map v_Name (volumes exampleExternals intentS3Only) =
       [''knative-internal'', ''knative-var-log'']
   \<and> mediaVolumeName \<notin> set (map v_Name (volumes exampleExternals intentS3Only))
   \<and> map_option (map vm_Name) (volumeMounts exampleExternals intentS3Only) =
       Some [''knative-var-log'']"
proof -
  have v: "map v_Name (volumes exampleExternals intentS3Only) =
       [''knative-internal'', ''knative-var-log'']"
    by (simp add: volumes_def hasCodeMounts_def hasMediaMounts_def intentS3Only_def
        exampleSite_def exampleSpec_def exampleMedia_def exampleExternals_def Let_def)
  have m: "map_option (map vm_Name) (volumeMounts exampleExternals intentS3Only) =
       Some [''knative-var-log'']"
    by (simp add: volumeMounts_def hasCodeMounts_def hasMediaMounts_def intentS3Only_def
        exampleSite_def exampleSpec_def exampleMedia_def exampleExternals_def Let_def
        zeroVolumeMount_def)
  show ?thesis
    by (simp add: v m mediaVolumeName_def)
       (simp add: intentS3Only_def exampleSite_def exampleSpec_def exampleMedia_def)
qed

text \<open>
  Claim C2. For every intent, the init steps are, in this order: the volume-preparation
  step, present exactly when media mounts or code mounts are present; the user-supplied
  init containers, as given; the code-fetch step, present exactly when the git variant of
  the code source is set; the install step, present exactly when a bootstrap spec is set.
  With the git variant set the volume-preparation step is always present, so the
  code-fetch step comes after it and before the install step. Both assemblers use this
  list.
\<close>

theorem init_steps_order:
  "\<exists>prep install.
     prepareVolumesContainer X wp = Some prep \<and> c_Name prep = ''prepare-volumes''
   \<and> installWPContainer X wp = Some install
   \<and> map c_Name install =
       (case ws_WordpressBootstrapSpec (wp_Spec wp) of None \<Rightarrow> [] | Some b \<Rightarrow> [''install-wp''])
   \<and> (gitVariant wp = None \<longrightarrow>
        initContainers X wp =
          Some ((if hasMediaMounts wp \<or> hasCodeMounts wp then [prep] else [])
                @ ws_InitContainers (wp_Spec wp) @ install))
   \<and> (\<forall>g. gitVariant wp = Some g \<longrightarrow>
        (\<exists>git. gitCloneContainer X wp = Some git \<and> c_Name git = ''git''
           \<and> initContainers X wp =
               Some ([prep] @ ws_InitContainers (wp_Spec wp) @ [git] @ install)))
   \<and> (\<exists>out. WebPodTemplateSpec X ord wp = Some out
          \<and> Some (ps_InitContainers (pts_Spec out)) = initContainers X wp)
   \<and> (\<exists>out. JobPodTemplateSpec X ord wp cmd = Some out
          \<and> Some (ps_InitContainers (pts_Spec out)) = initContainers X wp)"
proof -
  obtain prep where p: "prepareVolumesContainer X wp = Some prep"
    and pn: "c_Name prep = ''prepare-volumes''"
    using prepareVolumesContainer_Some by blast
  obtain install where i: "installWPContainer X wp = Some install"
    and n: "map c_Name install =
       (case ws_WordpressBootstrapSpec (wp_Spec wp) of None \<Rightarrow> [] | Some b \<Rightarrow> [''install-wp''])"
    using installWPContainer_Some by blast
  note closed = initContainers_closed [OF p i]
  have none: "gitVariant wp = None \<longrightarrow>
        initContainers X wp =
          Some ((if hasMediaMounts wp \<or> hasCodeMounts wp then [prep] else [])
                @ ws_InitContainers (wp_Spec wp) @ install)"
    using closed by simp
  have some: "\<forall>g. gitVariant wp = Some g \<longrightarrow>
        (\<exists>git. gitCloneContainer X wp = Some git \<and> c_Name git = ''git''
           \<and> initContainers X wp =
               Some ([prep] @ ws_InitContainers (wp_Spec wp) @ [git] @ install))"
  proof (intro allI impI)
    fix g
    assume g: "gitVariant wp = Some g"
    then obtain git where c: "gitCloneContainer X wp = Some git" and cn: "c_Name git = ''git''"
      using gitCloneContainer_Some by blast
    from g have "hasCodeMounts wp" by (rule gitVariant_hasCodeMounts)
    with closed g c have "initContainers X wp =
               Some ([prep] @ ws_InitContainers (wp_Spec wp) @ [git] @ install)"
      by simp
    with c cn show "\<exists>git. gitCloneContainer X wp = Some git \<and> c_Name git = ''git''
           \<and> initContainers X wp =
               Some ([prep] @ ws_InitContainers (wp_Spec wp) @ [git] @ install)"
      by blast
  qed
  have web: "\<exists>out. WebPodTemplateSpec X ord wp = Some out
          \<and> Some (ps_InitContainers (pts_Spec out)) = initContainers X wp"
    using Web_parts [of X ord wp] by auto
  have job: "\<exists>out. JobPodTemplateSpec X ord wp cmd = Some out
          \<and> Some (ps_InitContainers (pts_Spec out)) = initContainers X wp"
    using Job_parts [of X ord wp cmd] by auto
  show ?thesis
    apply (rule exI [of _ prep])
    apply (rule exI [of _ install])
    apply (intro conjI)
           apply (rule p)
          apply (rule pn)
         apply (rule i)
        apply (rule n)
       apply (rule none)
      apply (rule some)
     apply (rule web)
    apply (rule job)
    done
qed

theorem init_steps_order_witness:
  "gitVariant intentFullInit \<noteq> None
   \<and> ws_WordpressBootstrapSpec (wp_Spec intentFullInit) \<noteq> None
   \<and> map_option (map c_Name) (initContainers exampleExternals intentFullInit) =
       Some [''prepare-volumes'', ''user-step'', ''git'', ''install-wp'']"
proof -
  let ?g = "\<lparr>git_Repository = ''https://example/repo.git'', git_GitRef = ''main'',
             git_Env = [], git_EnvFrom = [], git_EmptyDir = None\<rparr>"
  have g: "gitVariant intentFullInit = Some ?g"
    by (simp add: gitVariant_def intentFullInit_def exampleSite_def exampleSpec_def)
  have b: "ws_WordpressBootstrapSpec (wp_Spec intentFullInit) = Some \<lparr>wb_Env = [], wb_EnvFrom = []\<rparr>"
    by (simp add: intentFullInit_def exampleSite_def exampleSpec_def)
  have u: "map c_Name (ws_InitContainers (wp_Spec intentFullInit)) = [''user-step'']"
    by (simp add: intentFullInit_def exampleSite_def exampleSpec_def)
  from init_steps_order [of exampleExternals intentFullInit exampleIteration "[]"] g b
  obtain prep install git where
    "c_Name prep = ''prepare-volumes''" "map c_Name install = [''install-wp'']"
    "c_Name git = ''git''"
    "initContainers exampleExternals intentFullInit =
       Some ([prep] @ ws_InitContainers (wp_Spec intentFullInit) @ [git] @ install)"
    by auto
  with g b u show ?thesis by simp
qed

text \<open>
  Claim C9. The only thing that can differ between two runs of an assembler on the same
  intent is the order in which Go ranges over the label and annotation maps. Whatever
  orders two runs take, the serving-shape assembler returns the same result in both, and
  so does the job-shape assembler for the same command; and each of them does return a
  result.
\<close>

theorem compile_deterministic:
  assumes "validIteration X wp ord" and "validIteration X wp ord'"
  shows "WebPodTemplateSpec X ord wp = WebPodTemplateSpec X ord' wp
     \<and> JobPodTemplateSpec X ord wp cmd = JobPodTemplateSpec X ord' wp cmd
     \<and> (\<exists>out. WebPodTemplateSpec X ord wp = Some out
            \<and> pts_ObjectMeta out =
                mergedMeta (ws_PodMetadata (wp_Spec wp)) (WebPodLabels X wp))
     \<and> (\<exists>out. JobPodTemplateSpec X ord wp cmd = Some out
            \<and> pts_ObjectMeta out =
                mergedMeta (ws_PodMetadata (wp_Spec wp)) (JobPodLabels X wp))"
proof -
  obtain inits where i: "initContainers X wp = Some inits"
    using initContainers_Some by blast
  have web: "\<exists>out. WebPodTemplateSpec X ord wp = Some out
            \<and> pts_ObjectMeta out =
                mergedMeta (ws_PodMetadata (wp_Spec wp)) (WebPodLabels X wp)"
    unfolding WebPodTemplateSpec_def Let_def
    by (simp only: meta_indep [OF assms(1)] simp_thms)
       (simp add: i volumeMounts_closed)
  have job: "\<exists>out. JobPodTemplateSpec X ord wp cmd = Some out
            \<and> pts_ObjectMeta out =
                mergedMeta (ws_PodMetadata (wp_Spec wp)) (JobPodLabels X wp)"
    unfolding JobPodTemplateSpec_def Let_def
    by (simp only: meta_indep [OF assms(1)] simp_thms)
       (simp add: i volumeMounts_closed)
  from Web_indep [OF assms] Job_indep [OF assms] web job show ?thesis
    by (intro conjI) assumption+
qed

lemma exampleIteration_valid:
  "validIteration exampleExternals intentPodMetadata exampleIteration"
  by (auto simp: validIteration_def enumerates_def exampleIteration_def exampleExternals_def
      intentPodMetadata_def exampleSite_def exampleSpec_def fun_upd_twist)

lemma exampleIteration'_valid:
  "validIteration exampleExternals intentPodMetadata exampleIteration'"
  by (auto simp: validIteration_def enumerates_def exampleIteration'_def exampleExternals_def
      intentPodMetadata_def exampleSite_def exampleSpec_def fun_upd_twist)

theorem compile_deterministic_witness:
  "exampleIteration (WebPodLabels exampleExternals intentPodMetadata)
     = rev (exampleIteration' (WebPodLabels exampleExternals intentPodMetadata))
   \<and> length (exampleIteration (WebPodLabels exampleExternals intentPodMetadata)) = 2
   \<and> WebPodTemplateSpec exampleExternals exampleIteration intentPodMetadata
       = WebPodTemplateSpec exampleExternals exampleIteration' intentPodMetadata
   \<and> JobPodTemplateSpec exampleExternals exampleIteration intentPodMetadata [''wp'', ''cron'']
       = JobPodTemplateSpec exampleExternals exampleIteration' intentPodMetadata [''wp'', ''cron'']
   \<and> WebPodTemplateSpec exampleExternals exampleIteration intentPodMetadata \<noteq> None"
proof -
  have "[''app'' \<mapsto> ''wordpress'', ''site'' \<mapsto> ''blog''] \<noteq> Map.empty"
    by simp
  then have o: "exampleIteration (WebPodLabels exampleExternals intentPodMetadata)
     = rev (exampleIteration' (WebPodLabels exampleExternals intentPodMetadata))"
    "length (exampleIteration (WebPodLabels exampleExternals intentPodMetadata)) = 2"
    by (simp_all add: exampleIteration_def exampleIteration'_def exampleExternals_def
        intentPodMetadata_def exampleSite_def)
  note c = compile_deterministic [OF exampleIteration_valid exampleIteration'_valid,
      of "[''wp'', ''cron'']"]
  from c have w: "WebPodTemplateSpec exampleExternals exampleIteration intentPodMetadata
       = WebPodTemplateSpec exampleExternals exampleIteration' intentPodMetadata"
    by (rule conjunct1)
  from c have j: "JobPodTemplateSpec exampleExternals exampleIteration intentPodMetadata [''wp'', ''cron'']
       = JobPodTemplateSpec exampleExternals exampleIteration' intentPodMetadata [''wp'', ''cron'']"
    by (elim conjE)
  from c obtain out where "WebPodTemplateSpec exampleExternals exampleIteration intentPodMetadata
       = Some out"
    by (elim conjE exE)
  then have nn: "WebPodTemplateSpec exampleExternals exampleIteration intentPodMetadata \<noteq> None"
    by simp
  from o w j nn show ?thesis
    by (intro conjI) assumption+
qed

end
